theory Spec2Isabelle
  imports Complex_Main "HOL-Library.AList" "HOL-Library.Char_ord" "HOL-Library.List_Lexorder"
begin

section \<open>Numbers, rounding and text formatting\<close>

text \<open>
  Python floats are modelled as real numbers. \<open>round(x, n)\<close> and the format
  specification \<open>:.nf\<close> round to \<open>n\<close> decimal places, ties to the even neighbour.
\<close>

definition round_half_even :: "real \<Rightarrow> int" where
  "round_half_even y =
     (let f = \<lfloor>y\<rfloor>; d = y - of_int f
      in if d < 1 / 2 then f else if 1 / 2 < d then f + 1 else if even f then f else f + 1)"

definition py_round :: "real \<Rightarrow> nat \<Rightarrow> real" where
  "py_round x n = of_int (round_half_even (x * 10 ^ n)) / 10 ^ n"

definition digit_char :: "nat \<Rightarrow> char" where
  "digit_char n = ''0123456789'' ! n"

fun str_of_nat :: "nat \<Rightarrow> string" where
  "str_of_nat n =
     (if n < 10 then [digit_char n] else str_of_nat (n div 10) @ [digit_char (n mod 10)])"

declare str_of_nat.simps [simp del]


definition zero_pad :: "nat \<Rightarrow> string \<Rightarrow> string" where
  "zero_pad w s = replicate (w - length s) CHR ''0'' @ s"

text \<open>\<open>format(x, '.df')\<close>: sign, integer part and \<open>d\<close> fractional digits.\<close>

definition fmt_f :: "nat \<Rightarrow> real \<Rightarrow> string" where
  "fmt_f d x =
     (let m = nat (round_half_even (\<bar>x\<bar> * 10 ^ d));
          body = str_of_nat (m div 10 ^ d) @
                 (if d = 0 then [] else ''.'' @ zero_pad d (str_of_nat (m mod 10 ^ d)))
      in if x < 0 then ''-'' @ body else body)"


definition f_gt :: "real option \<Rightarrow> real \<Rightarrow> bool" where
  "f_gt x c = (case x of None \<Rightarrow> False | Some v \<Rightarrow> v > c)"

definition fmt_float :: "nat \<Rightarrow> real option \<Rightarrow> string" where
  "fmt_float d x = (case x of None \<Rightarrow> ''nan'' | Some v \<Rightarrow> fmt_f d v)"

text \<open>\<open>str.lower()\<close> on ASCII letters; every other character is kept.\<close>

definition lower_char :: "char \<Rightarrow> char" where
  "lower_char c =
     (case map_of (zip ''ABCDEFGHIJKLMNOPQRSTUVWXYZ'' ''abcdefghijklmnopqrstuvwxyz'') c of
        None \<Rightarrow> c
      | Some l \<Rightarrow> l)"

definition py_lower :: "string \<Rightarrow> string" where
  "py_lower s = map lower_char s"

fun starts_with :: "string \<Rightarrow> string \<Rightarrow> bool" where
  "starts_with s [] = True"
| "starts_with [] (p # ps) = False"
| "starts_with (c # cs) (p # ps) = (c = p \<and> starts_with cs ps)"

definition ends_with :: "string \<Rightarrow> string \<Rightarrow> bool" where
  "ends_with s suf = starts_with (rev s) (rev suf)"

text \<open>\<open>sub in s\<close> for strings.\<close>

fun contains :: "string \<Rightarrow> string \<Rightarrow> bool" where
  "contains [] sub = (sub = [])"
| "contains (c # cs) sub = (starts_with (c # cs) sub \<or> contains cs sub)"

text \<open>\<open>', '.join(parts)\<close>\<close>

fun join_comma :: "string list \<Rightarrow> string" where
  "join_comma [] = []"
| "join_comma [p] = p"
| "join_comma (p # q # ps) = p @ '', '' @ join_comma (q # ps)"


section \<open>Confidence and interval (src/utils.py, backend/ml\_utils.py)\<close>

text \<open>
  \<open>utils.calculate_confidence_score(prediction, model_std, feature_quality)\<close>, the
  confidence of the full pipeline.
\<close>

definition calculate_confidence_score :: "real \<Rightarrow> real \<Rightarrow> real \<Rightarrow> real" where
  "calculate_confidence_score prediction model_std feature_quality =
     (let base_confidence = max 0 (if prediction > 0 then 1 - model_std / prediction else 0.5);
          confidence = base_confidence * feature_quality
      in max 0.1 (min 1.0 confidence))"

text \<open>
  The metadata of the simple predictor is a JSON object; \<open>metrics\<close> maps a metric name to
  a JSON value, which is a number or something else (a string, null, ...).
\<close>

datatype jval = JNum real | JOther

record model_metadata =
  model_name :: "string option"
  metrics :: "(string \<times> jval) list"

datatype error = TypeError | ValueError | KeyError | IndexError | AttributeError

text \<open>
  \<open>CropYieldPredictor.calculate_confidence_score(features_df, prediction)\<close>. The two
  calls of \<open>np.random.uniform\<close> are the arguments \<open>u\<close> (drawn from 0.9 .. 1.1 in the
  body) and \<open>u_exc\<close> (drawn from 0.7 .. 0.9 in the exception handler). The body raises
  when \<open>test_r2\<close> is not a number (\<open>max(0.5, r2_score)\<close> is a TypeError); the
  argument \<open>features_df\<close> is never read.
\<close>

definition base_confidence_of :: "model_metadata \<Rightarrow> error + real" where
  "base_confidence_of md =
     (case map_of (metrics md) ''test_r2'' of
        None \<Rightarrow> Inr 0.8
      | Some (JNum r2_score) \<Rightarrow> Inr (min 0.95 (max 0.5 r2_score))
      | Some JOther \<Rightarrow> Inl TypeError)"

definition CropYieldPredictor_calculate_confidence_score ::
    "model_metadata \<Rightarrow> real \<Rightarrow> real \<Rightarrow> real \<Rightarrow> real" where
  "CropYieldPredictor_calculate_confidence_score md prediction u u_exc =
     (case base_confidence_of md of
        Inl e \<Rightarrow> u_exc
      | Inr base \<Rightarrow>
          (let base_confidence = (if prediction < 0.5 \<or> prediction > 15 then base * 0.8 else base);
               confidence = base_confidence * u
           in max 0.5 (min 0.95 confidence)))"






section \<open>Advisory engine (src/api/advisory.py)\<close>

record farmer_inputs =
  area_ha :: "real option"
  fertilizer_N_kg :: "real option"
  fertilizer_P_kg :: "real option"
  fertilizer_K_kg :: "real option"
  irrigation_events :: "int option"

record prediction_request =
  latitude :: real
  longitude :: real
  state :: string
  district :: string
  crop :: string
  year :: int
  farmer :: "farmer_inputs option"

record top_feature =
  feature :: string
  fvalue :: "real option"
  importance :: real

text \<open>
  \<open>{f['feature']: f['value'] for f in top_features}\<close>: a later entry of the same
  name replaces an earlier one. \<open>dict_get d k dflt\<close> is \<open>d.get(k, dflt)\<close>.
\<close>

definition top_features_dict :: "top_feature list \<Rightarrow> (string \<times> real option) list" where
  "top_features_dict tfs = fold (\<lambda>f d. AList.update (feature f) (fvalue f) d) tfs []"

definition dict_get :: "(string \<times> 'v) list \<Rightarrow> string \<Rightarrow> 'v \<Rightarrow> 'v" where
  "dict_get d k dflt = (case map_of d k of None \<Rightarrow> dflt | Some v \<Rightarrow> v)"






definition high_humidity_threshold :: real where "high_humidity_threshold = 80"
definition high_temp_threshold :: real where "high_temp_threshold = 30"










text \<open>
  \<open>generate_pest_advisory\<close>. \<open>assess_pest_risk\<close> is the block that sets
  \<open>risk_level\<close> and \<open>risk_factors\<close> from humidity, maximal temperature and
  precipitation, by three \<open>if\<close> statements in this order.
\<close>

definition assess_pest_risk ::
    "real option \<Rightarrow> real option \<Rightarrow> real option \<Rightarrow> string \<times> string list" where
  "assess_pest_risk humidity temp_max precip_sum =
     (let s0 = (''Low'', []);
          s1 = (if f_gt humidity high_humidity_threshold
                then (''High'', snd s0 @ [''high humidity'']) else s0);
          s2 = (if f_gt temp_max high_temp_threshold
                then ((if \<not> contains (fst s1) ''High'' then ''Medium'' else fst s1),
                      snd s1 @ [''high temperature''])
                else s1);
          s3 = (if f_gt precip_sum 1000
                then (''High'', snd s2 @ [''excessive rainfall'']) else s2)
      in s3)"

definition generate_pest_advisory :: "top_feature list \<Rightarrow> prediction_request \<Rightarrow> string" where
  "generate_pest_advisory tfs request =
     (let top_features = top_features_dict tfs;
          crop_l = py_lower (crop request);
          humidity = dict_get top_features ''humidity_mean'' (Some 75);
          temp_max = dict_get top_features ''temp_max'' (Some 30);
          precip_sum = dict_get top_features ''precip_sum'' (Some 800);
          risk = assess_pest_risk humidity temp_max precip_sum;
          risk_level = fst risk;
          risk_factors = snd risk;
          advisory1 = risk_level @ '' pest risk detected'' @
            (if risk_factors \<noteq> [] then '' due to '' @ join_comma risk_factors @ ''. '' else ''. '');
          advisory2 =
            (if crop_l = ''rice'' then
               (if risk_level = ''High'' then
                  advisory1 @ ''Monitor for blast, brown spot, and stem borer. '' @
                  ''Apply preventive fungicide spray. '' @
                  ''Use pheromone traps for stem borer control. ''
                else if risk_level = ''Medium'' then
                  advisory1 @ ''Regular field monitoring recommended. '' @
                  ''Watch for early signs of blast and bacterial blight. ''
                else
                  advisory1 @ ''Continue regular field inspection. '' @
                  ''Maintain field hygiene. '')
             else
               (if risk_level = ''High'' then
                  advisory1 @ ''Increase field monitoring frequency. '' @
                  ''Consider preventive spray if weather continues. ''
                else
                  advisory1 @ ''Regular monitoring sufficient. '' @
                  ''Maintain good field sanitation. ''))
      in advisory2 @ ''Use integrated pest management: '' @
         ''biological control, resistant varieties, and targeted pesticide use.'')"


section \<open>Data frames\<close>

text \<open>
  A pandas DataFrame is an ordered list of named columns of equal length. A column is
  numeric (dtype float64 or int64; a cell is a float, \<open>None\<close> being NaN) or holds strings
  (dtype object). Floats are reals; a non-finite result of a division (by an exactly zero
  denominator) is the cell \<open>None\<close>.
\<close>

datatype column = NumCol "real option list" | StrCol "string list"

type_synonym frame = "(string \<times> column) list"

definition columns :: "frame \<Rightarrow> string list" where
  "columns df = map fst df"

definition has_col :: "frame \<Rightarrow> string \<Rightarrow> bool" where
  "has_col df c = (c \<in> set (columns df))"

text \<open>\<open>df[c] = v\<close>: an existing column is replaced in place, a new one is appended.\<close>

definition set_col :: "frame \<Rightarrow> string \<Rightarrow> column \<Rightarrow> frame" where
  "set_col df c v = AList.update c v df"

fun col_len :: "column \<Rightarrow> nat" where
  "col_len (NumCol xs) = length xs"
| "col_len (StrCol xs) = length xs"

definition n_rows :: "frame \<Rightarrow> nat" where
  "n_rows df = (case df of [] \<Rightarrow> 0 | (c, v) # rest \<Rightarrow> col_len v)"

text \<open>\<open>df.drop(columns=[c for c in names if c in df.columns])\<close>\<close>

definition drop_cols :: "frame \<Rightarrow> string list \<Rightarrow> frame" where
  "drop_cols df names = filter (\<lambda>(c, v). c \<notin> set names) df"

text \<open>\<open>df[names]\<close> for a list of names: a KeyError when one is not a column.\<close>

fun select_cols :: "frame \<Rightarrow> string list \<Rightarrow> error + frame" where
  "select_cols df [] = Inr []"
| "select_cols df (c # cs) =
     (case map_of df c of
        None \<Rightarrow> Inl KeyError
      | Some v \<Rightarrow> (case select_cols df cs of Inl e \<Rightarrow> Inl e | Inr rest \<Rightarrow> Inr ((c, v) # rest)))"

definition bind_err :: "error + 'a \<Rightarrow> ('a \<Rightarrow> error + 'b) \<Rightarrow> error + 'b" where
  "bind_err r f = (case r of Inl e \<Rightarrow> Inl e | Inr x \<Rightarrow> f x)"

text \<open>
  A column read for arithmetic or comparison with a number: a string column raises a
  TypeError at the first such operation.
\<close>

definition num_col :: "frame \<Rightarrow> string \<Rightarrow> error + real option list" where
  "num_col df c =
     (case map_of df c of
        None \<Rightarrow> Inl KeyError
      | Some (NumCol xs) \<Rightarrow> Inr xs
      | Some (StrCol xs) \<Rightarrow> Inl TypeError)"

text \<open>Elementwise operations; NaN propagates through arithmetic.\<close>

definition vmap :: "(real \<Rightarrow> real) \<Rightarrow> real option list \<Rightarrow> real option list" where
  "vmap f xs = map (map_option f) xs"

definition vzip ::
    "(real \<Rightarrow> real \<Rightarrow> real option) \<Rightarrow> real option list \<Rightarrow> real option list \<Rightarrow> real option list" where
  "vzip f xs ys =
     map (\<lambda>(x, y). case x of None \<Rightarrow> None | Some a \<Rightarrow> (case y of None \<Rightarrow> None | Some b \<Rightarrow> f a b))
       (zip xs ys)"

definition fdiv :: "real \<Rightarrow> real \<Rightarrow> real option" where
  "fdiv a b = (if b = 0 then None else Some (a / b))"

text \<open>
  \<open>np.where(cond(col), g(col), d)\<close> for a condition on one column and a constant \<open>d\<close>:
  the condition is false on NaN.
\<close>

definition np_where ::
    "(real \<Rightarrow> bool) \<Rightarrow> (real \<Rightarrow> real) \<Rightarrow> real \<Rightarrow> real option list \<Rightarrow> real option list" where
  "np_where cond g d xs =
     map (\<lambda>x. case x of None \<Rightarrow> Some d | Some v \<Rightarrow> if cond v then Some (g v) else Some d) xs"

text \<open>The values of a column that are not NaN; \<open>min\<close>, \<open>max\<close> and \<open>median\<close> skip NaN.\<close>

definition present :: "real option list \<Rightarrow> real list" where
  "present xs = concat (map (\<lambda>x. case x of None \<Rightarrow> [] | Some v \<Rightarrow> [v]) xs)"

definition col_min :: "real option list \<Rightarrow> real option" where
  "col_min xs = (case present xs of [] \<Rightarrow> None | v # vs \<Rightarrow> Some (fold min vs v))"

definition col_max :: "real option list \<Rightarrow> real option" where
  "col_max xs = (case present xs of [] \<Rightarrow> None | v # vs \<Rightarrow> Some (fold max vs v))"

definition median :: "real option list \<Rightarrow> real option" where
  "median xs =
     (let vs = sort (present xs); n = length vs
      in if n = 0 then None
         else if odd n then Some (vs ! (n div 2))
         else Some ((vs ! (n div 2 - 1) + vs ! (n div 2)) / 2))"

text \<open>\<open>col.nunique()\<close>: the number of distinct values, NaN not counted.\<close>

definition nunique :: "column \<Rightarrow> nat" where
  "nunique col =
     (case col of NumCol xs \<Rightarrow> length (remdups (present xs)) | StrCol xs \<Rightarrow> length (remdups xs))"

text \<open>\<open>X.fillna(X.median())\<close>: the median of a string column raises a TypeError.\<close>

fun fillna_median :: "frame \<Rightarrow> error + frame" where
  "fillna_median [] = Inr []"
| "fillna_median ((c, StrCol xs) # rest) = Inl TypeError"
| "fillna_median ((c, NumCol xs) # rest) =
     (case fillna_median rest of
        Inl e \<Rightarrow> Inl e
      | Inr rest' \<Rightarrow>
          Inr ((c, NumCol (case median xs of
                             None \<Rightarrow> xs
                           | Some m \<Rightarrow> map (\<lambda>x. case x of None \<Rightarrow> Some m | Some v \<Rightarrow> Some v) xs))
               # rest'))"


section \<open>Feature engineering (src/features.py)\<close>

subsection \<open>create\_weather\_features\<close>

definition weather_temperature_features :: "frame \<Rightarrow> error + frame" where
  "weather_temperature_features df =
     (if has_col df ''temp_mean'' \<and> has_col df ''temp_max'' \<and> has_col df ''temp_min'' then
        bind_err (num_col df ''temp_max'') (\<lambda>temp_max.
        bind_err (num_col df ''temp_min'') (\<lambda>temp_min.
          Inr (set_col
                (set_col
                  (set_col df ''temp_range'' (NumCol (vzip (\<lambda>a b. Some (a - b)) temp_max temp_min)))
                  ''temp_stress'' (NumCol (np_where (\<lambda>v. v > 35) (\<lambda>v. v - 35) 0 temp_max)))
                ''temp_cold_stress'' (NumCol (np_where (\<lambda>v. v < 15) (\<lambda>v. 15 - v) 0 temp_min)))))
      else Inr df)"

definition weather_precipitation_features :: "frame \<Rightarrow> error + frame" where
  "weather_precipitation_features df =
     (if has_col df ''precip_sum'' \<and> has_col df ''precip_mean'' then
        bind_err (num_col df ''precip_sum'') (\<lambda>precip_sum.
        bind_err (num_col df ''precip_mean'') (\<lambda>precip_mean.
          Inr (set_col
                (set_col
                  (set_col df ''precip_intensity''
                     (NumCol (vzip (\<lambda>a b. fdiv a (b + 1 / 10 ^ 6)) precip_sum precip_mean)))
                  ''drought_stress'' (NumCol (np_where (\<lambda>v. v < 500) (\<lambda>v. 500 - v) 0 precip_sum)))
                ''flood_risk'' (NumCol (np_where (\<lambda>v. v > 1500) (\<lambda>v. v - 1500) 0 precip_sum)))))
      else Inr df)"

definition weather_humidity_features :: "frame \<Rightarrow> error + frame" where
  "weather_humidity_features df =
     (if has_col df ''humidity_mean'' then
        bind_err (num_col df ''humidity_mean'') (\<lambda>humidity_mean.
          Inr (set_col df ''humidity_stress''
                 (NumCol (np_where (\<lambda>v. v > 85) (\<lambda>v. v - 85) 0 humidity_mean))))
      else Inr df)"

definition weather_solar_features :: "frame \<Rightarrow> error + frame" where
  "weather_solar_features df =
     (if has_col df ''solar_mean'' then
        bind_err (num_col df ''solar_mean'') (\<lambda>solar_mean.
          Inr (set_col df ''solar_deficit''
                 (NumCol (np_where (\<lambda>v. v < 15) (\<lambda>v. 15 - v) 0 solar_mean))))
      else Inr df)"

definition weather_gdd_features :: "frame \<Rightarrow> error + frame" where
  "weather_gdd_features df =
     (if has_col df ''gdd'' then
        bind_err (num_col df ''gdd'') (\<lambda>gdd.
          Inr (set_col
                (set_col
                  (set_col df ''gdd_optimal''
                     (NumCol (np_where (\<lambda>v. v \<ge> 2000 \<and> v \<le> 3000) (\<lambda>v. 1) 0 gdd)))
                  ''gdd_deficit'' (NumCol (np_where (\<lambda>v. v < 2000) (\<lambda>v. 2000 - v) 0 gdd)))
                ''gdd_excess'' (NumCol (np_where (\<lambda>v. v > 3000) (\<lambda>v. v - 3000) 0 gdd))))
      else Inr df)"

definition create_weather_features :: "frame \<Rightarrow> error + frame" where
  "create_weather_features df =
     bind_err (weather_temperature_features df) (\<lambda>df1.
     bind_err (weather_precipitation_features df1) (\<lambda>df2.
     bind_err (weather_humidity_features df2) (\<lambda>df3.
     bind_err (weather_solar_features df3) (\<lambda>df4.
     weather_gdd_features df4))))"

subsection \<open>create\_soil\_features\<close>

definition soil_texture_features :: "frame \<Rightarrow> error + frame" where
  "soil_texture_features df =
     (if list_all (has_col df) [''soil_clay'', ''soil_sand'', ''soil_silt''] then
        bind_err (num_col df ''soil_clay'') (\<lambda>soil_clay.
        bind_err (num_col df ''soil_sand'') (\<lambda>soil_sand.
        bind_err (num_col df ''soil_silt'') (\<lambda>soil_silt.
          Inr (set_col
                (set_col
                  (set_col df ''clay_sand_ratio''
                     (NumCol (vzip (\<lambda>a b. fdiv a (b + 1 / 10 ^ 6)) soil_clay soil_sand)))
                  ''silt_clay_ratio''
                     (NumCol (vzip (\<lambda>a b. fdiv a (b + 1 / 10 ^ 6)) soil_silt soil_clay)))
                ''soil_texture_score''
                   (NumCol (vzip (\<lambda>a b. Some (a + b))
                              (vzip (\<lambda>a b. Some (a + b)) (vmap (\<lambda>v. v * 0.3) soil_clay)
                                 (vmap (\<lambda>v. v * 0.5) soil_silt))
                              (vmap (\<lambda>v. v * 0.2) soil_sand)))))))
      else Inr df)"

definition soil_ph_features :: "frame \<Rightarrow> error + frame" where
  "soil_ph_features df =
     (if has_col df ''soil_phh2o'' then
        bind_err (num_col df ''soil_phh2o'') (\<lambda>soil_phh2o.
          Inr (set_col
                (set_col df ''soil_ph_optimal''
                   (NumCol (np_where (\<lambda>v. v \<ge> 6.0 \<and> v \<le> 7.0) (\<lambda>v. 1) 0 soil_phh2o)))
                ''soil_ph_stress'' (NumCol (vmap (\<lambda>v. \<bar>v - 6.5\<bar>) soil_phh2o))))
      else Inr df)"

definition soil_organic_features :: "frame \<Rightarrow> error + frame" where
  "soil_organic_features df =
     (if has_col df ''soil_soc'' then
        bind_err (num_col df ''soil_soc'') (\<lambda>soil_soc.
          Inr (set_col
                (set_col df ''soil_organic_high''
                   (NumCol (np_where (\<lambda>v. v > 2.0) (\<lambda>v. 1) 0 soil_soc)))
                ''soil_organic_low'' (NumCol (np_where (\<lambda>v. v < 1.0) (\<lambda>v. 1) 0 soil_soc))))
      else Inr df)"

definition soil_nutrient_features :: "frame \<Rightarrow> error + frame" where
  "soil_nutrient_features df =
     (if has_col df ''soil_cec'' \<and> has_col df ''soil_phh2o'' then
        bind_err (num_col df ''soil_cec'') (\<lambda>soil_cec.
        bind_err (num_col df ''soil_ph_stress'') (\<lambda>soil_ph_stress.
          Inr (set_col df ''nutrient_availability''
                 (NumCol (vzip (\<lambda>a b. Some (a * b)) soil_cec (vmap (\<lambda>v. 1 - v) soil_ph_stress))))))
      else Inr df)"

definition create_soil_features :: "frame \<Rightarrow> error + frame" where
  "create_soil_features df =
     bind_err (soil_texture_features df) (\<lambda>df1.
     bind_err (soil_ph_features df1) (\<lambda>df2.
     bind_err (soil_organic_features df2) (\<lambda>df3.
     soil_nutrient_features df3)))"

subsection \<open>create\_temporal\_features\<close>

text \<open>
  \<open>year_normalized\<close> divides by \<open>max - min\<close> of the year column, which is 0 for a
  frame of one row (and whenever all years agree): the result is NaN there.
\<close>

definition create_temporal_features :: "frame \<Rightarrow> error + frame" where
  "create_temporal_features df =
     (if has_col df ''year'' then
        bind_err (num_col df ''year'') (\<lambda>year_col.
          Inr (set_col
                (set_col
                  (set_col df ''year_normalized''
                     (NumCol (case (col_min year_col, col_max year_col) of
                                (Some mn, Some mx) \<Rightarrow>
                                  map (\<lambda>x. case x of None \<Rightarrow> None | Some v \<Rightarrow> fdiv (v - mn) (mx - mn))
                                    year_col
                              | _ \<Rightarrow> map (\<lambda>x. None) year_col)))
                  ''year_cycle_3'' (NumCol (vmap (\<lambda>v. sin (2 * pi * v / 3)) year_col)))
                ''year_cycle_5'' (NumCol (vmap (\<lambda>v. sin (2 * pi * v / 5)) year_col))))
      else Inr df)"

subsection \<open>create\_interaction\_features\<close>

definition water_retention_feature :: "frame \<Rightarrow> error + frame" where
  "water_retention_feature df =
     (if has_col df ''precip_sum'' \<and> has_col df ''soil_clay'' then
        bind_err (num_col df ''precip_sum'') (\<lambda>precip_sum.
        bind_err (num_col df ''soil_clay'') (\<lambda>soil_clay.
          Inr (set_col df ''water_retention''
                 (NumCol (vmap (\<lambda>v. v / 100) (vzip (\<lambda>a b. Some (a * b)) precip_sum soil_clay))))))
      else Inr df)"

definition temp_organic_feature :: "frame \<Rightarrow> error + frame" where
  "temp_organic_feature df =
     (if has_col df ''temp_mean'' \<and> has_col df ''soil_soc'' then
        bind_err (num_col df ''temp_mean'') (\<lambda>temp_mean.
        bind_err (num_col df ''soil_soc'') (\<lambda>soil_soc.
          Inr (set_col df ''temp_organic_interaction''
                 (NumCol (vzip (\<lambda>a b. Some (a * b)) temp_mean soil_soc)))))
      else Inr df)"

definition gdd_ph_feature :: "frame \<Rightarrow> error + frame" where
  "gdd_ph_feature df =
     (if has_col df ''gdd'' \<and> has_col df ''soil_ph_optimal'' then
        bind_err (num_col df ''gdd'') (\<lambda>gdd.
        bind_err (num_col df ''soil_ph_optimal'') (\<lambda>soil_ph_optimal.
          Inr (set_col df ''gdd_ph_interaction''
                 (NumCol (vzip (\<lambda>a b. Some (a * b)) gdd soil_ph_optimal)))))
      else Inr df)"

text \<open>
  \<open>df[stress_cols].sum(axis=1)\<close>: the sum of each row over the columns whose name
  contains \<open>stress\<close>, NaN counting as 0.
\<close>

fun num_cols :: "frame \<Rightarrow> string list \<Rightarrow> error + real option list list" where
  "num_cols df [] = Inr []"
| "num_cols df (c # cs) =
     bind_err (num_col df c) (\<lambda>xs. bind_err (num_cols df cs) (\<lambda>rest. Inr (xs # rest)))"

definition row_sums :: "nat \<Rightarrow> real option list list \<Rightarrow> real option list" where
  "row_sums n cols =
     map (\<lambda>i. Some (sum_list (map (\<lambda>xs. case xs ! i of None \<Rightarrow> 0 | Some v \<Rightarrow> v) cols))) [0..<n]"

definition total_stress_feature :: "frame \<Rightarrow> error + frame" where
  "total_stress_feature df =
     (let stress_cols = filter (\<lambda>c. contains c ''stress'') (columns df)
      in if length stress_cols > 1 then
           bind_err (num_cols df stress_cols) (\<lambda>cols.
             Inr (set_col df ''total_stress'' (NumCol (row_sums (n_rows df) cols))))
         else Inr df)"

definition create_interaction_features :: "frame \<Rightarrow> error + frame" where
  "create_interaction_features df =
     bind_err (water_retention_feature df) (\<lambda>df1.
     bind_err (temp_organic_feature df1) (\<lambda>df2.
     bind_err (gdd_ph_feature df2) (\<lambda>df3.
     total_stress_feature df3)))"

subsection \<open>The engineer and what it takes from its libraries\<close>

text \<open>
  Two library behaviours are parameters of the model: Python's text of a float
  (\<open>astype(str)\<close> on a numeric column), and the support mask that
  \<open>SelectKBest(f_regression, k).fit(X, y).get_support()\<close> computes or the exception it
  raises.
\<close>

record py_env =
  float_str :: "real option \<Rightarrow> string"
  select_k_best :: "frame \<Rightarrow> column \<Rightarrow> nat \<Rightarrow> error + bool list"

text \<open>A fitted \<open>StandardScaler\<close> of one column, and a \<open>LabelEncoder\<close> as its \<open>classes_\<close>.\<close>

record scaler =
  sc_mean :: real
  sc_scale :: real

record engineer =
  scalers :: "(string \<times> scaler) list"
  encoders :: "(string \<times> string list) list"
  feature_names :: "string list"
  selected_features :: "string list"

definition FeatureEngineer_init :: engineer where
  "FeatureEngineer_init = \<lparr>scalers = [], encoders = [], feature_names = [], selected_features = []\<rparr>"

fun fold_err :: "('a \<Rightarrow> 's \<Rightarrow> error + 's) \<Rightarrow> 'a list \<Rightarrow> 's \<Rightarrow> error + 's" where
  "fold_err f [] s = Inr s"
| "fold_err f (x # xs) s = (case f x s of Inl e \<Rightarrow> Inl e | Inr s' \<Rightarrow> fold_err f xs s')"

subsection \<open>encode\_categorical\_features\<close>

text \<open>
  \<open>LabelEncoder\<close> on strings: \<open>fit\<close> keeps the sorted distinct values; \<open>transform\<close>
  gives the position of each value in \<open>classes_\<close> and raises a ValueError on a value that
  is not there.
\<close>

definition le_fit :: "string list \<Rightarrow> string list" where
  "le_fit vals = sort (remdups vals)"

definition le_index :: "string list \<Rightarrow> string \<Rightarrow> nat" where
  "le_index classes v = length (takeWhile (\<lambda>c. c \<noteq> v) classes)"

definition le_transform :: "string list \<Rightarrow> string list \<Rightarrow> error + nat list" where
  "le_transform classes vals =
     (if set vals \<subseteq> set classes then Inr (map (le_index classes) vals) else Inl ValueError)"

definition astype_str :: "py_env \<Rightarrow> column \<Rightarrow> string list" where
  "astype_str env col = (case col of StrCol xs \<Rightarrow> xs | NumCol xs \<Rightarrow> map (float_str env) xs)"

definition encoded_col :: "nat list \<Rightarrow> column" where
  "encoded_col codes = NumCol (map (\<lambda>i. Some (real i)) codes)"

text \<open>The body of the loop over \<open>categorical_cols\<close>, for one column name.\<close>

definition encode_categorical_column ::
    "py_env \<Rightarrow> bool \<Rightarrow> string \<Rightarrow> frame \<times> engineer \<Rightarrow> error + (frame \<times> engineer)" where
  "encode_categorical_column env fit col s =
     (let df = fst s; st = snd s
      in case map_of df col of
           None \<Rightarrow> Inr (df, st)
         | Some column \<Rightarrow>
             (let vals = astype_str env column
              in if fit then
                   (let classes = le_fit vals
                    in bind_err (le_transform classes vals) (\<lambda>codes.
                         Inr (set_col df (col @ ''_encoded'') (encoded_col codes),
                              st\<lparr>encoders := AList.update col classes (encoders st)\<rparr>)))
                 else
                   (case map_of (encoders st) col of
                      None \<Rightarrow> Inr (df, st)
                    | Some classes \<Rightarrow>
                        if set vals \<subseteq> set classes then
                          bind_err (le_transform classes vals) (\<lambda>codes.
                            Inr (set_col df (col @ ''_encoded'') (encoded_col codes), st))
                        else
                          (case classes of
                             [] \<Rightarrow> Inl IndexError
                           | most_frequent # rest \<Rightarrow>
                               (let vals' = map (\<lambda>x. if x \<in> set classes then x else most_frequent) vals;
                                    df1 = set_col df col (StrCol vals')
                                in bind_err (le_transform classes vals') (\<lambda>codes.
                                     Inr (set_col df1 (col @ ''_encoded'') (encoded_col codes), st)))))))"

definition categorical_cols :: "string list" where
  "categorical_cols = [''state'', ''district'', ''crop'']"

definition encode_categorical_features ::
    "py_env \<Rightarrow> engineer \<Rightarrow> frame \<Rightarrow> bool \<Rightarrow> error + (frame \<times> engineer)" where
  "encode_categorical_features env st df fit =
     fold_err (encode_categorical_column env fit) categorical_cols (df, st)"

subsection \<open>select\_features\<close>

definition numeric_cols :: "frame \<Rightarrow> string list" where
  "numeric_cols X = map fst (filter (\<lambda>(c, v). case v of NumCol xs \<Rightarrow> True | StrCol xs \<Rightarrow> False) X)"

definition select_features ::
    "py_env \<Rightarrow> engineer \<Rightarrow> frame \<Rightarrow> column \<Rightarrow> nat \<Rightarrow> error + (string list \<times> engineer)" where
  "select_features env st X y k =
     bind_err (select_cols X (numeric_cols X)) (\<lambda>X_numeric.
     bind_err (fillna_median X_numeric) (\<lambda>X_filled.
     bind_err (select_k_best env X_filled y (min k (length (numeric_cols X)))) (\<lambda>selected_mask.
       (let selected = map fst (filter snd (zip (numeric_cols X) selected_mask))
        in Inr (selected, st\<lparr>selected_features := selected\<rparr>)))))"

subsection \<open>scale\_features\<close>

text \<open>
  \<open>StandardScaler\<close> on one column: mean and standard deviation of the values that are
  not NaN, a zero deviation replaced by 1. Without any value \<open>fit\<close> raises a ValueError
  (not reached from \<open>scale_features\<close>: a column it fits has more than two distinct
  values). \<open>transform\<close> keeps NaN.
\<close>

definition ss_fit :: "real option list \<Rightarrow> error + scaler" where
  "ss_fit xs =
     (let vs = present xs; n = real (length vs)
      in if vs = [] then Inl ValueError
         else (let mean = sum_list vs / n;
                   var = sum_list (map (\<lambda>v. (v - mean) ^ 2) vs) / n
               in Inr \<lparr>sc_mean = mean, sc_scale = (if var = 0 then 1 else sqrt var)\<rparr>))"

definition ss_transform :: "scaler \<Rightarrow> real option list \<Rightarrow> real option list" where
  "ss_transform sc xs =
     map (\<lambda>x. case x of None \<Rightarrow> None | Some v \<Rightarrow> fdiv (v - sc_mean sc) (sc_scale sc)) xs"

definition skip_scaling :: "string \<Rightarrow> column \<Rightarrow> bool" where
  "skip_scaling col v =
     (ends_with col ''_encoded'' \<or> ends_with col ''_optimal'' \<or> ends_with col ''_high'' \<or>
      ends_with col ''_low'' \<or> nunique v \<le> 2)"

definition cols_to_scale :: "frame \<Rightarrow> string list" where
  "cols_to_scale X =
     map fst (filter (\<lambda>(col, v). case v of StrCol xs \<Rightarrow> False
                                        | NumCol xs \<Rightarrow> \<not> skip_scaling col v) X)"

definition scale_fit_column :: "string \<Rightarrow> frame \<times> engineer \<Rightarrow> error + (frame \<times> engineer)" where
  "scale_fit_column col s =
     (let X = fst s; st = snd s
      in bind_err (num_col X col) (\<lambda>xs.
         bind_err (ss_fit xs) (\<lambda>sc.
           Inr (set_col X col (NumCol (ss_transform sc xs)),
                st\<lparr>scalers := AList.update col sc (scalers st)\<rparr>))))"

definition scale_transform_column :: "string \<Rightarrow> frame \<times> engineer \<Rightarrow> error + (frame \<times> engineer)" where
  "scale_transform_column col s =
     (let X = fst s; st = snd s
      in case map_of (scalers st) col of
           None \<Rightarrow> Inr (X, st)
         | Some sc \<Rightarrow>
             bind_err (num_col X col) (\<lambda>xs. Inr (set_col X col (NumCol (ss_transform sc xs)), st)))"

definition scale_features :: "engineer \<Rightarrow> frame \<Rightarrow> bool \<Rightarrow> error + (frame \<times> engineer)" where
  "scale_features st X fit =
     (if fit then fold_err scale_fit_column (cols_to_scale X) (X, st)
      else fold_err scale_transform_column (cols_to_scale X) (X, st))"

subsection \<open>engineer\_features and prepare\_features\<close>

definition non_feature_cols :: "string list" where
  "non_feature_cols =
     [''yield_t_ha'', ''year'', ''state'', ''district'', ''crop'', ''area_ha'', ''production_tonnes'']"

definition engineer_features ::
    "py_env \<Rightarrow> engineer \<Rightarrow> frame \<Rightarrow> bool \<Rightarrow> error + (frame \<times> engineer)" where
  "engineer_features env st df fit =
     bind_err (create_weather_features df) (\<lambda>df1.
     bind_err (create_soil_features df1) (\<lambda>df2.
     bind_err (create_temporal_features df2) (\<lambda>df3.
     bind_err (create_interaction_features df3) (\<lambda>df4.
     bind_err (encode_categorical_features env st df4 fit) (\<lambda>(df5, st5).
       Inr (df5,
            if fit then
              st5\<lparr>feature_names := filter (\<lambda>col. col \<notin> set non_feature_cols) (columns df5)\<rparr>
            else st5))))))"

definition cols_to_remove :: "string list" where
  "cols_to_remove = [''year'', ''state'', ''district'', ''crop'', ''area_ha'', ''production_tonnes'']"

text \<open>
  The frame after the engineering, the split of the target and the removal of the
  non-feature columns: the computed feature set that selection reads.
\<close>

definition split_target :: "frame \<Rightarrow> string \<Rightarrow> frame \<times> column option" where
  "split_target df_engineered target_col =
     (drop_cols (drop_cols df_engineered [target_col]) cols_to_remove,
      map_of df_engineered target_col)"

definition prepare_features ::
    "py_env \<Rightarrow> engineer \<Rightarrow> frame \<Rightarrow> string \<Rightarrow> bool \<Rightarrow> bool \<Rightarrow>
     error + ((frame \<times> column option) \<times> engineer)" where
  "prepare_features env st df target_col fit feature_selection =
     bind_err (engineer_features env st df fit) (\<lambda>(df_engineered, st1).
       (let X = fst (split_target df_engineered target_col);
            y = snd (split_target df_engineered target_col);
            replay =
              (if \<not> fit \<and> selected_features st1 \<noteq> [] then
                 bind_err (select_cols X (filter (has_col X) (selected_features st1)))
                   (\<lambda>X2. Inr (X2, st1))
               else Inr (X, st1))
        in bind_err
             (case y of
                None \<Rightarrow> replay
              | Some target \<Rightarrow>
                  if fit \<and> feature_selection then
                    bind_err (select_features env st1 X target 50) (\<lambda>(selected, st2).
                    bind_err (select_cols X selected) (\<lambda>X2. Inr (X2, st2)))
                  else replay)
             (\<lambda>(X2, st2).
        bind_err (scale_features st2 X2 fit) (\<lambda>(X3, st3).
        bind_err (fillna_median X3) (\<lambda>X4. Inr ((X4, y), st3))))))"


section \<open>Prediction service (src/api/predict.py)\<close>

text \<open>
  The data of the external provider, already fetched: two dictionaries from feature names
  to floats, each possibly empty. The bound regression model is a parameter: what its
  \<open>predict\<close> returns for a feature frame (one value per row, or an exception) and its
  \<open>feature_importances_\<close> when it has them.
\<close>

record external_data =
  weather :: "(string \<times> real option) list"
  soil :: "(string \<times> real option) list"

record regression_model =
  model_predict :: "frame \<Rightarrow> error + real list"
  feature_importances :: "real list option"

record prediction_service =
  model :: "regression_model option"
  feature_engineer :: "engineer option"
  service_metadata :: model_metadata

record prediction_result =
  predicted_yield :: real
  prediction_interval :: "real \<times> real"
  confidence :: real
  top_features :: "top_feature list"
  model_version :: string
  timestamp :: string
  data_quality :: real

definition validate_coordinates :: "real \<Rightarrow> real \<Rightarrow> bool" where
  "validate_coordinates lat lon =
     (if \<not> (- 90 \<le> lat \<and> lat \<le> 90) then False
      else if \<not> (- 180 \<le> lon \<and> lon \<le> 180) then False
      else True)"

text \<open>\<open>validate_year\<close> compares with the year of the clock, the argument \<open>now_year\<close>.\<close>

definition validate_year :: "int \<Rightarrow> int \<Rightarrow> bool" where
  "validate_year y now_year = (2000 \<le> y \<and> y \<le> now_year + 1)"

text \<open>A value of the input dictionary, and the frame of one row made of the dictionary.\<close>

datatype cellval = NumV "real option" | StrV string

definition frame_of_row :: "(string \<times> cellval) list \<Rightarrow> frame" where
  "frame_of_row data =
     map (\<lambda>(k, v). (k, case v of NumV x \<Rightarrow> NumCol [x] | StrV s \<Rightarrow> StrCol [s])) data"

definition dict_update :: "(string \<times> 'v) list \<Rightarrow> (string \<times> 'v) list \<Rightarrow> (string \<times> 'v) list" where
  "dict_update d items = fold (\<lambda>(k, v) acc. AList.update k v acc) items d"

definition farmer_items :: "farmer_inputs \<Rightarrow> (string \<times> cellval) list" where
  "farmer_items fi =
     (case area_ha fi of None \<Rightarrow> [] | Some v \<Rightarrow> [(''area_ha'', NumV (Some v))]) @
     (case fertilizer_N_kg fi of None \<Rightarrow> [] | Some v \<Rightarrow> [(''fertilizer_N'', NumV (Some v))]) @
     (case fertilizer_P_kg fi of None \<Rightarrow> [] | Some v \<Rightarrow> [(''fertilizer_P'', NumV (Some v))]) @
     (case fertilizer_K_kg fi of None \<Rightarrow> [] | Some v \<Rightarrow> [(''fertilizer_K'', NumV (Some v))]) @
     (case irrigation_events fi of None \<Rightarrow> []
      | Some n \<Rightarrow> [(''irrigation_freq'', NumV (Some (of_int n)))])"

definition create_input_dataframe :: "prediction_request \<Rightarrow> external_data \<Rightarrow> frame" where
  "create_input_dataframe request ext =
     (let data =
            [(''year'', NumV (Some (of_int (year request)))),
             (''state'', StrV (state request)),
             (''district'', StrV (district request)),
             (''crop'', StrV (crop request)),
             (''area_ha'', NumV (Some 1.0)),
             (''production_tonnes'', NumV (Some 0))];
          data1 = dict_update data (map (\<lambda>(k, v). (k, NumV v)) (weather ext));
          data2 = dict_update data1 (map (\<lambda>(k, v). (k, NumV v)) (soil ext));
          data3 = (case farmer request of None \<Rightarrow> data2
                   | Some fi \<Rightarrow> dict_update data2 (farmer_items fi))
      in frame_of_row data3)"

definition weather_defaults :: "(string \<times> real) list" where
  "weather_defaults =
     [(''precip_sum'', 800), (''precip_mean'', 4.5), (''temp_mean'', 26), (''temp_max'', 32),
      (''temp_min'', 20), (''humidity_mean'', 75), (''solar_mean'', 18), (''gdd'', 2500)]"

definition soil_defaults :: "(string \<times> real) list" where
  "soil_defaults =
     [(''soil_phh2o'', 6.5), (''soil_soc'', 1.5), (''soil_clay'', 25), (''soil_sand'', 45),
      (''soil_silt'', 30), (''soil_cec'', 15), (''soil_nitrogen'', 0.15)]"

definition lag_defaults :: "(string \<times> real) list" where
  "lag_defaults =
     [(''yield_lag1'', 3.0), (''yield_lag2'', 2.9), (''yield_lag3'', 3.1),
      (''yield_lag3_mean'', 3.0), (''yield_trend'', 0.05)]"

definition add_default :: "string \<times> real \<Rightarrow> frame \<Rightarrow> frame" where
  "add_default fd df =
     (if has_col df (fst fd) then df
      else set_col df (fst fd) (NumCol (replicate (n_rows df) (Some (snd fd)))))"

definition add_default_features :: "frame \<Rightarrow> frame" where
  "add_default_features df =
     fold add_default lag_defaults (fold add_default soil_defaults (fold add_default weather_defaults df))"

definition missing_params :: "string list \<Rightarrow> (string \<times> real option) list \<Rightarrow> nat" where
  "missing_params key_params d = length (filter (\<lambda>param. map_of d param = None) key_params)"

definition assess_data_quality :: "external_data \<Rightarrow> real" where
  "assess_data_quality ext =
     (let q0 = 1.0;
          q1 = (if weather ext = [] then q0 - 0.3
                else q0 - (real (missing_params [''precip_sum'', ''temp_mean'', ''gdd''] (weather ext))
                           / 3) * 0.2);
          q2 = (if soil ext = [] then q1 - 0.2
                else q1 - (real (missing_params [''soil_phh2o'', ''soil_soc'', ''soil_clay''] (soil ext))
                           / 3) * 0.1)
      in max 0.1 q2)"

text \<open>
  \<open>float(X[name].iloc[0])\<close>: an IndexError without rows; on a string a ValueError
  (unless the string is the text of a number, which no column of the pipeline holds).
\<close>

definition first_cell :: "frame \<Rightarrow> string \<Rightarrow> error + real option" where
  "first_cell X name =
     (case map_of X name of
        None \<Rightarrow> Inl KeyError
      | Some (NumCol []) \<Rightarrow> Inl IndexError
      | Some (NumCol (x # xs)) \<Rightarrow> Inr x
      | Some (StrCol []) \<Rightarrow> Inl IndexError
      | Some (StrCol (s # ss)) \<Rightarrow> Inl ValueError)"

fun top_feature_entries :: "frame \<Rightarrow> (string \<times> real) list \<Rightarrow> error + top_feature list" where
  "top_feature_entries X [] = Inr []"
| "top_feature_entries X ((name, imp) # rest) =
     (if has_col X name then
        bind_err (first_cell X name) (\<lambda>v.
        bind_err (top_feature_entries X rest) (\<lambda>tfs.
          Inr (\<lparr>feature = name, fvalue = map_option (\<lambda>x. py_round x 3) v,
                importance = py_round imp 4\<rparr> # tfs)))
      else top_feature_entries X rest)"

text \<open>
  \<open>get_top_features\<close>: the sort is by importance, descending and stable; any exception
  gives the empty list.
\<close>

definition get_top_features :: "regression_model \<Rightarrow> frame \<Rightarrow> nat \<Rightarrow> top_feature list" where
  "get_top_features m X top_k =
     (case (case feature_importances m of
              Some importances \<Rightarrow>
                top_feature_entries X
                  (take top_k (sort_key (\<lambda>p. - snd p) (zip (columns X) importances)))
            | None \<Rightarrow>
                bind_err (top_feature_entries X (map (\<lambda>c. (c, 0)) (take top_k (columns X))))
                  (\<lambda>tfs. Inr (map (\<lambda>t. t\<lparr>importance := 0.1\<rparr>) tfs))) of
        Inl e \<Rightarrow> []
      | Inr tfs \<Rightarrow> tfs)"

text \<open>
  \<open>PredictionService.predict\<close>, with the fetched external data, the year of the clock and
  the timestamp as arguments.
\<close>

definition PredictionService_predict ::
    "py_env \<Rightarrow> prediction_service \<Rightarrow> prediction_request \<Rightarrow> external_data \<Rightarrow> int \<Rightarrow> string \<Rightarrow>
     error + prediction_result" where
  "PredictionService_predict env svc request ext now_year ts =
     (if \<not> validate_coordinates (latitude request) (longitude request) then Inl ValueError
      else if \<not> validate_year (year request) now_year then Inl ValueError
      else
        (let input_df = add_default_features (create_input_dataframe request ext)
         in case feature_engineer svc of
              None \<Rightarrow> Inl AttributeError
            | Some fe \<Rightarrow>
                bind_err (prepare_features env fe input_df ''yield_t_ha'' False False) (\<lambda>(Xy, fe').
                  (case model svc of
                     None \<Rightarrow> Inl AttributeError
                   | Some m \<Rightarrow>
                       bind_err (model_predict m (fst Xy)) (\<lambda>predictions.
                         (case predictions of
                            [] \<Rightarrow> Inl IndexError
                          | prediction # others \<Rightarrow>
                              (let prediction_std =
                                     (case feature_importances m of
                                        None \<Rightarrow> 0.3
                                      | Some importances \<Rightarrow> max 0.2 (1.0 - sum_list importances));
                                   dq = assess_data_quality ext;
                                   conf = calculate_confidence_score prediction prediction_std dq
                               in Inr \<lparr>predicted_yield = py_round prediction 2,
                                       prediction_interval =
                                         (py_round (max 0 (prediction - 1.96 * prediction_std)) 2,
                                          py_round (prediction + 1.96 * prediction_std) 2),
                                       confidence = py_round conf 3,
                                       top_features = get_top_features m (fst Xy) 5,
                                       model_version =
                                         (case model_name (service_metadata svc) of
                                            None \<Rightarrow> ''unknown''
                                          | Some n \<Rightarrow> n),
                                       timestamp = ts,
                                       data_quality = dq\<rparr>)))))))"


section \<open>Well-typed records and fitted encoders\<close>

text \<open>
  In the frames that the prediction service builds, only the columns \<open>state\<close>,
  \<open>district\<close> and \<open>crop\<close> can hold strings: the request declares them as strings, and
  the external data, the farmer inputs and the defaults are numbers. An encoder that was
  fitted on at least one row has a class.
\<close>

fun is_num :: "column \<Rightarrow> bool" where
  "is_num (NumCol xs) = True"
| "is_num (StrCol xs) = False"

definition typed_frame :: "frame \<Rightarrow> bool" where
  "typed_frame df = list_all (\<lambda>(c, v). is_num v \<or> c \<in> set categorical_cols) df"

definition encoders_fitted :: "engineer \<Rightarrow> bool" where
  "encoders_fitted st = list_all (\<lambda>c. map_of (encoders st) c \<noteq> Some []) categorical_cols"

text \<open>The same for the dictionary of one row, before it is made a frame.\<close>

definition row_typed :: "(string \<times> cellval) list \<Rightarrow> bool" where
  "row_typed data =
     list_all (\<lambda>(k, v). case v of NumV x \<Rightarrow> True | StrV s \<Rightarrow> k \<in> set categorical_cols) data"

definition numeric_frame :: "frame \<Rightarrow> bool" where
  "numeric_frame X = list_all (\<lambda>(c, v). is_num v) X"


section \<open>Sample library behaviour and models\<close>

text \<open>
  A selector that keeps every column (what \<open>SelectKBest\<close> does when \<open>k\<close> is the number
  of columns), an environment with it, and a model that predicts the same value for every
  row (as a fitted \<open>DummyRegressor\<close> does).
\<close>

definition select_all :: "frame \<Rightarrow> column \<Rightarrow> nat \<Rightarrow> error + bool list" where
  "select_all X y k = Inr (replicate (length X) True)"

definition sample_env :: py_env where
  "sample_env = \<lparr>float_str = fmt_float 1, select_k_best = select_all\<rparr>"

definition constant_predict :: "real \<Rightarrow> frame \<Rightarrow> error + real list" where
  "constant_predict p X = Inr (replicate (n_rows X) p)"

definition constant_model :: "real \<Rightarrow> regression_model" where
  "constant_model p = \<lparr>model_predict = constant_predict p, feature_importances = None\<rparr>"


section \<open>Frames with an index\<close>

text \<open>
  All columns of a pandas DataFrame have the length of its index: \<open>uniform n df\<close>. A step
  of the feature engineering keeps that length and the columns that are there:
  \<open>keeps_rows f\<close>.
\<close>

definition uniform :: "nat \<Rightarrow> frame \<Rightarrow> bool" where
  "uniform n df = list_all (\<lambda>(c, v). col_len v = n) df"

definition keeps_rows :: "(frame \<Rightarrow> error + frame) \<Rightarrow> bool" where
  "keeps_rows f =
     (\<forall>df df'. f df = Inr df' \<longrightarrow>
        (\<forall>n. uniform n df \<longrightarrow> uniform n df') \<and> set (columns df) \<subseteq> set (columns df'))"


section \<open>Auxiliary facts\<close>


lemma round_half_even_floor:
  "\<lfloor>y\<rfloor> \<le> round_half_even y \<and> round_half_even y \<le> \<lfloor>y\<rfloor> + 1"
  unfolding round_half_even_def Let_def by auto

lemma round_half_even_mono:
  assumes "x \<le> y"
  shows "round_half_even x \<le> round_half_even y"
proof (cases "\<lfloor>x\<rfloor> = \<lfloor>y\<rfloor>")
  case True
  with assms show ?thesis
    unfolding round_half_even_def Let_def by (auto; linarith)
next
  case False
  from assms have "\<lfloor>x\<rfloor> \<le> \<lfloor>y\<rfloor>" by (rule floor_mono)
  with False have "\<lfloor>x\<rfloor> + 1 \<le> \<lfloor>y\<rfloor>" by simp
  with round_half_even_floor[of x] round_half_even_floor[of y] show ?thesis by linarith
qed

lemma round_half_even_of_int: "round_half_even (of_int k) = k"
  unfolding round_half_even_def Let_def by simp

lemma py_round_mono: "x \<le> y \<Longrightarrow> py_round x n \<le> py_round y n"
  unfolding py_round_def
  by (intro divide_right_mono) (simp_all add: round_half_even_mono)

lemma py_round_zero: "py_round 0 n = 0"
  unfolding py_round_def using round_half_even_of_int[of 0] by simp

lemma py_round_nonneg: "0 \<le> x \<Longrightarrow> 0 \<le> py_round x n"
  using py_round_mono[of 0 x n] by (simp add: py_round_zero)

lemma calculate_confidence_score_range:
  "0.1 \<le> calculate_confidence_score p s q \<and> calculate_confidence_score p s q \<le> 1"
  unfolding calculate_confidence_score_def Let_def by simp











section \<open>Confidence and interval: properties\<close>

text \<open>
  C4. The confidence of the full pipeline (\<open>utils.calculate_confidence_score\<close>) lies in
  [0.1, 1.0] for every prediction, model deviation and feature quality; the confidence of
  the simple path (\<open>CropYieldPredictor.calculate_confidence_score\<close>) lies in [0.5, 0.95]
  for every metadata, prediction and random draw, the draw of the exception handler being
  in [0.7, 0.9]. The two ranges are distinct: the full pipeline reaches both 0.1 and 1.0.
\<close>

theorem confidence_clamp_ranges:
  assumes "0.7 \<le> u_exc" and "u_exc \<le> 0.9"
  shows "0.1 \<le> calculate_confidence_score p s q \<and> calculate_confidence_score p s q \<le> 1.0 \<and>
         0.5 \<le> CropYieldPredictor_calculate_confidence_score md p u u_exc \<and>
         CropYieldPredictor_calculate_confidence_score md p u u_exc \<le> 0.95 \<and>
         calculate_confidence_score 1 1 1 = 0.1 \<and> calculate_confidence_score 1 0 1 = 1.0"
proof -
  have a: "0.5 \<le> CropYieldPredictor_calculate_confidence_score md p u u_exc \<and>
         CropYieldPredictor_calculate_confidence_score md p u u_exc \<le> 0.95"
    using assms unfolding CropYieldPredictor_calculate_confidence_score_def Let_def
    by (cases "base_confidence_of md") auto
  have b: "calculate_confidence_score 1 1 1 = 0.1 \<and> calculate_confidence_score 1 0 1 = 1.0"
    unfolding calculate_confidence_score_def Let_def by simp
  from a b calculate_confidence_score_range[of p s q] show ?thesis by simp
qed

theorem confidence_clamp_ranges_witness:
  "(0.7 :: real) \<le> 0.8 \<and> (0.8 :: real) \<le> 0.9 \<and>
   0.1 \<le> calculate_confidence_score 3 0.3 0.7 \<and> calculate_confidence_score 3 0.3 0.7 \<le> 1.0 \<and>
   0.5 \<le> CropYieldPredictor_calculate_confidence_score
            \<lparr>model_name = None, metrics = [(''test_r2'', JNum 0.9)]\<rparr> 3 1 0.8 \<and>
   CropYieldPredictor_calculate_confidence_score
            \<lparr>model_name = None, metrics = [(''test_r2'', JNum 0.9)]\<rparr> 3 1 0.8 \<le> 0.95"
  using confidence_clamp_ranges[where u_exc = "0.8" and p = 3 and s = "0.3" and q = "0.7"
      and md = "\<lparr>model_name = None, metrics = [(''test_r2'', JNum 0.9)]\<rparr>" and u = 1]
  by simp






section \<open>Advisory engine: properties\<close>

text \<open>
  C8. In the pest advisory, once humidity above the high-humidity threshold or
  precipitation above 1000 mm has set the risk to High, the risk level is High at the end
  and the text opens with it. For the top features humidity\_mean = 90, temp\_max = 32,
  precip\_sum = 1200 and the crop rice, the text classifies the risk as High and holds the
  rice guidance on blast and stem borer.
\<close>

theorem pest_high_never_downgraded:
  assumes "h = dict_get (top_features_dict tfs) ''humidity_mean'' (Some 75)"
      and "t = dict_get (top_features_dict tfs) ''temp_max'' (Some 30)"
      and "p = dict_get (top_features_dict tfs) ''precip_sum'' (Some 800)"
      and "f_gt h high_humidity_threshold \<or> f_gt p 1000"
  shows "fst (assess_pest_risk h t p) = ''High'' \<and>
         starts_with (generate_pest_advisory tfs request) ''High pest risk detected'' \<and>
         generate_pest_advisory
           [\<lparr>feature = ''humidity_mean'', fvalue = Some 90, importance = i1\<rparr>,
            \<lparr>feature = ''temp_max'', fvalue = Some 32, importance = i2\<rparr>,
            \<lparr>feature = ''precip_sum'', fvalue = Some 1200, importance = i3\<rparr>]
           (request\<lparr>crop := ''rice''\<rparr>) =
         ''High pest risk detected due to high humidity, high temperature, excessive rainfall. Monitor for blast, brown spot, and stem borer. Apply preventive fungicide spray. Use pheromone traps for stem borer control. Use integrated pest management: biological control, resistant varieties, and targeted pesticide use.''"
proof -
  have hi: "fst (assess_pest_risk h t p) = ''High''"
    using assms(4)
    by (auto simp: assess_pest_risk_def Let_def)
  have tx: "starts_with (generate_pest_advisory tfs request) ''High pest risk detected''"
    using hi assms(1-3) unfolding generate_pest_advisory_def Let_def by simp
  have sc: "generate_pest_advisory
           [\<lparr>feature = ''humidity_mean'', fvalue = Some 90, importance = i1\<rparr>,
            \<lparr>feature = ''temp_max'', fvalue = Some 32, importance = i2\<rparr>,
            \<lparr>feature = ''precip_sum'', fvalue = Some 1200, importance = i3\<rparr>]
           (request\<lparr>crop := ''rice''\<rparr>) =
         ''High pest risk detected due to high humidity, high temperature, excessive rainfall. Monitor for blast, brown spot, and stem borer. Apply preventive fungicide spray. Use pheromone traps for stem borer control. Use integrated pest management: biological control, resistant varieties, and targeted pesticide use.''"
    by (simp add: generate_pest_advisory_def Let_def top_features_dict_def dict_get_def
        assess_pest_risk_def high_humidity_threshold_def high_temp_threshold_def py_lower_def
        lower_char_def f_gt_def)
  from hi tx sc show ?thesis by simp
qed

theorem pest_high_never_downgraded_witness:
  "f_gt (Some 90) high_humidity_threshold \<and>
   fst (assess_pest_risk (Some 90) (Some 25) (Some 600)) = ''High'' \<and>
   starts_with
     (generate_pest_advisory
        [\<lparr>feature = ''humidity_mean'', fvalue = Some 90, importance = 0.3\<rparr>,
         \<lparr>feature = ''temp_max'', fvalue = Some 25, importance = 0.2\<rparr>,
         \<lparr>feature = ''precip_sum'', fvalue = Some 600, importance = 0.1\<rparr>]
        \<lparr>latitude = 20.5, longitude = 86.4, state = ''Odisha'', district = ''Kendrapara'',
          crop = ''Wheat'', year = 2024, farmer = None\<rparr>)
     ''High pest risk detected''"
  using pest_high_never_downgraded[where h = "Some 90" and t = "Some 25" and p = "Some 600"
      and tfs = "[\<lparr>feature = ''humidity_mean'', fvalue = Some 90, importance = 0.3\<rparr>,
         \<lparr>feature = ''temp_max'', fvalue = Some 25, importance = 0.2\<rparr>,
         \<lparr>feature = ''precip_sum'', fvalue = Some 600, importance = 0.1\<rparr>]"
      and request = "\<lparr>latitude = 20.5, longitude = 86.4, state = ''Odisha'',
          district = ''Kendrapara'', crop = ''Wheat'', year = 2024, farmer = None\<rparr>"]
  by (simp add: top_features_dict_def dict_get_def high_humidity_threshold_def f_gt_def)







section \<open>Data frames: auxiliary facts\<close>

text \<open>The equations that evaluate the pipeline on a concrete frame.\<close>

lemmas frame_eval = scale_features_def cols_to_scale_def skip_scaling_def ends_with_def nunique_def
  present_def scale_fit_column_def scale_transform_column_def num_col_def bind_err_def ss_fit_def
  ss_transform_def set_col_def fdiv_def Let_def

lemmas feature_eval =
  prepare_features_def engineer_features_def split_target_def drop_cols_def cols_to_remove_def
  create_weather_features_def weather_temperature_features_def weather_precipitation_features_def
  weather_humidity_features_def weather_solar_features_def weather_gdd_features_def
  create_soil_features_def soil_texture_features_def soil_ph_features_def soil_organic_features_def
  soil_nutrient_features_def create_temporal_features_def create_interaction_features_def
  water_retention_feature_def temp_organic_feature_def gdd_ph_feature_def total_stress_feature_def
  encode_categorical_features_def encode_categorical_column_def categorical_cols_def
  has_col_def columns_def vzip_def vmap_def np_where_def col_min_def col_max_def median_def
  row_sums_def n_rows_def astype_str_def le_transform_def le_index_def encoded_col_def

lemma bind_err_Inr [simp]: "bind_err (Inr x) f = f x"
  by (simp add: bind_err_def)

lemma bind_err_Inl [simp]: "bind_err (Inl e) f = Inl e"
  by (simp add: bind_err_def)

lemma bind_err_eq_Inr:
  "bind_err r f = Inr y \<longleftrightarrow> (\<exists>x. r = Inr x \<and> f x = Inr y)"
  by (cases r) simp_all

lemma has_col_map_of: "has_col df c \<longleftrightarrow> map_of df c \<noteq> None"
  by (simp add: has_col_def columns_def map_of_eq_None_iff)

lemma has_col_set_col [simp]: "has_col (set_col df c v) c' \<longleftrightarrow> c' = c \<or> has_col df c'"
  by (auto simp: has_col_map_of set_col_def update_conv')

lemma columns_set_col_present: "has_col df c \<Longrightarrow> columns (set_col df c v) = columns df"
  unfolding has_col_def columns_def set_col_def
  by (induction df) auto

lemma map_of_set_col: "map_of (set_col df c v) = (map_of df)(c \<mapsto> v)"
  by (simp add: set_col_def update_conv')

lemma set_update_subset: "set (AList.update k v al) \<subseteq> insert (k, v) (set al)"
  by (induction al) auto

lemma typed_frame_iff:
  "typed_frame df \<longleftrightarrow> (\<forall>(c, v) \<in> set df. is_num v \<or> c \<in> set categorical_cols)"
  by (simp add: typed_frame_def list_all_iff)

lemma typed_set_col:
  assumes "typed_frame df" and "is_num v \<or> c \<in> set categorical_cols"
  shows "typed_frame (set_col df c v)"
  using assms set_update_subset[of c v df]
  unfolding typed_frame_iff set_col_def by blast

lemma typed_set_num [simp]: "typed_frame df \<Longrightarrow> typed_frame (set_col df c (NumCol xs))"
  by (rule typed_set_col) simp_all

lemma num_col_typed:
  assumes "typed_frame df" and "has_col df c" and "c \<notin> set categorical_cols"
  shows "\<exists>xs. num_col df c = Inr xs"
proof -
  from assms(2) obtain v where v: "map_of df c = Some v"
    by (auto simp: has_col_map_of)
  then have "(c, v) \<in> set df" by (rule map_of_SomeD)
  with assms(1,3) have "is_num v" by (auto simp: typed_frame_iff)
  with v show ?thesis by (cases v) (simp_all add: num_col_def)
qed

lemma num_col_has_col: "num_col df c = Inr xs \<Longrightarrow> has_col df c"
  by (auto simp: num_col_def has_col_map_of split: option.splits)

lemma num_cols_typed:
  assumes "typed_frame df"
  shows "list_all (\<lambda>c. has_col df c \<and> c \<notin> set categorical_cols) cs \<Longrightarrow>
         \<exists>cols. num_cols df cs = Inr cols"
proof (induction cs)
  case Nil
  then show ?case by simp
next
  case (Cons c cs)
  then obtain xs where "num_col df c = Inr xs"
    using num_col_typed[OF assms, of c] by auto
  moreover from Cons obtain cols where "num_cols df cs = Inr cols" by auto
  ultimately show ?case by simp
qed

lemma not_categorical [simp]:
  "''temp_max'' \<notin> set categorical_cols" "''temp_min'' \<notin> set categorical_cols"
  "''temp_mean'' \<notin> set categorical_cols" "''precip_sum'' \<notin> set categorical_cols"
  "''precip_mean'' \<notin> set categorical_cols" "''humidity_mean'' \<notin> set categorical_cols"
  "''solar_mean'' \<notin> set categorical_cols" "''gdd'' \<notin> set categorical_cols"
  "''soil_clay'' \<notin> set categorical_cols" "''soil_sand'' \<notin> set categorical_cols"
  "''soil_silt'' \<notin> set categorical_cols" "''soil_phh2o'' \<notin> set categorical_cols"
  "''soil_soc'' \<notin> set categorical_cols" "''soil_cec'' \<notin> set categorical_cols"
  "''soil_ph_stress'' \<notin> set categorical_cols" "''soil_ph_optimal'' \<notin> set categorical_cols"
  "''year'' \<notin> set categorical_cols"
  by (simp_all add: categorical_cols_def)


subsection \<open>The feature blocks succeed on well-typed frames\<close>

lemma weather_temperature_typed:
  assumes "typed_frame df"
  shows "\<exists>df'. weather_temperature_features df = Inr df' \<and> typed_frame df'"
proof (cases "has_col df ''temp_mean'' \<and> has_col df ''temp_max'' \<and> has_col df ''temp_min''")
  case True
  then obtain a b where "num_col df ''temp_max'' = Inr a" "num_col df ''temp_min'' = Inr b"
    using num_col_typed[OF assms] by (meson not_categorical)
  with True assms show ?thesis by (simp add: weather_temperature_features_def)
next
  case False
  then have "weather_temperature_features df = Inr df"
    unfolding weather_temperature_features_def by (rule if_not_P)
  with assms show ?thesis by simp
qed

lemma weather_precipitation_typed:
  assumes "typed_frame df"
  shows "\<exists>df'. weather_precipitation_features df = Inr df' \<and> typed_frame df'"
proof (cases "has_col df ''precip_sum'' \<and> has_col df ''precip_mean''")
  case True
  then obtain a b where "num_col df ''precip_sum'' = Inr a" "num_col df ''precip_mean'' = Inr b"
    using num_col_typed[OF assms] by (meson not_categorical)
  with True assms show ?thesis by (simp add: weather_precipitation_features_def)
next
  case False
  then have "weather_precipitation_features df = Inr df"
    unfolding weather_precipitation_features_def by (rule if_not_P)
  with assms show ?thesis by simp
qed

lemma weather_humidity_typed:
  assumes "typed_frame df"
  shows "\<exists>df'. weather_humidity_features df = Inr df' \<and> typed_frame df'"
proof (cases "has_col df ''humidity_mean''")
  case True
  then obtain a where "num_col df ''humidity_mean'' = Inr a"
    using num_col_typed[OF assms] by (meson not_categorical)
  with True assms show ?thesis by (simp add: weather_humidity_features_def)
next
  case False
  with assms show ?thesis by (simp add: weather_humidity_features_def)
qed

lemma weather_solar_typed:
  assumes "typed_frame df"
  shows "\<exists>df'. weather_solar_features df = Inr df' \<and> typed_frame df'"
proof (cases "has_col df ''solar_mean''")
  case True
  then obtain a where "num_col df ''solar_mean'' = Inr a"
    using num_col_typed[OF assms] by (meson not_categorical)
  with True assms show ?thesis by (simp add: weather_solar_features_def)
next
  case False
  with assms show ?thesis by (simp add: weather_solar_features_def)
qed

lemma weather_gdd_typed:
  assumes "typed_frame df"
  shows "\<exists>df'. weather_gdd_features df = Inr df' \<and> typed_frame df'"
proof (cases "has_col df ''gdd''")
  case True
  then obtain a where "num_col df ''gdd'' = Inr a"
    using num_col_typed[OF assms] by (meson not_categorical)
  with True assms show ?thesis by (simp add: weather_gdd_features_def)
next
  case False
  with assms show ?thesis by (simp add: weather_gdd_features_def)
qed

lemma create_weather_features_typed:
  assumes "typed_frame df"
  shows "\<exists>df'. create_weather_features df = Inr df' \<and> typed_frame df'"
proof -
  from weather_temperature_typed[OF assms] obtain df1
    where 1: "weather_temperature_features df = Inr df1" "typed_frame df1" by blast
  from weather_precipitation_typed[OF 1(2)] obtain df2
    where 2: "weather_precipitation_features df1 = Inr df2" "typed_frame df2" by blast
  from weather_humidity_typed[OF 2(2)] obtain df3
    where 3: "weather_humidity_features df2 = Inr df3" "typed_frame df3" by blast
  from weather_solar_typed[OF 3(2)] obtain df4
    where 4: "weather_solar_features df3 = Inr df4" "typed_frame df4" by blast
  from weather_gdd_typed[OF 4(2)] obtain df5
    where 5: "weather_gdd_features df4 = Inr df5" "typed_frame df5" by blast
  from 1 2 3 4 5 show ?thesis by (simp add: create_weather_features_def)
qed

lemma soil_texture_typed:
  assumes "typed_frame df"
  shows "\<exists>df'. soil_texture_features df = Inr df' \<and> typed_frame df'"
proof (cases "list_all (has_col df) [''soil_clay'', ''soil_sand'', ''soil_silt'']")
  case True
  then have "has_col df ''soil_clay''" "has_col df ''soil_sand''" "has_col df ''soil_silt''"
    by simp_all
  then obtain a b c where "num_col df ''soil_clay'' = Inr a" "num_col df ''soil_sand'' = Inr b"
      "num_col df ''soil_silt'' = Inr c"
    using num_col_typed[OF assms] by (meson not_categorical)
  with True assms show ?thesis by (simp add: soil_texture_features_def)
next
  case False
  then have "soil_texture_features df = Inr df"
    unfolding soil_texture_features_def by (rule if_not_P)
  with assms show ?thesis by simp
qed

lemma soil_ph_typed:
  assumes "typed_frame df"
  shows "\<exists>df'. soil_ph_features df = Inr df' \<and> typed_frame df' \<and>
           (has_col df' ''soil_phh2o'' \<longrightarrow> has_col df' ''soil_ph_stress'')"
proof (cases "has_col df ''soil_phh2o''")
  case True
  then obtain a where "num_col df ''soil_phh2o'' = Inr a"
    using num_col_typed[OF assms] by (meson not_categorical)
  with True assms show ?thesis by (simp add: soil_ph_features_def)
next
  case False
  with assms show ?thesis by (simp add: soil_ph_features_def)
qed

lemma soil_organic_typed:
  assumes "typed_frame df" and "has_col df ''soil_phh2o'' \<longrightarrow> has_col df ''soil_ph_stress''"
  shows "\<exists>df'. soil_organic_features df = Inr df' \<and> typed_frame df' \<and>
           (has_col df' ''soil_phh2o'' \<longrightarrow> has_col df' ''soil_ph_stress'')"
proof (cases "has_col df ''soil_soc''")
  case True
  then obtain a where "num_col df ''soil_soc'' = Inr a"
    using num_col_typed[OF assms(1)] by (meson not_categorical)
  with True assms show ?thesis by (simp add: soil_organic_features_def)
next
  case False
  with assms show ?thesis by (simp add: soil_organic_features_def)
qed

lemma soil_nutrient_typed:
  assumes "typed_frame df" and "has_col df ''soil_phh2o'' \<longrightarrow> has_col df ''soil_ph_stress''"
  shows "\<exists>df'. soil_nutrient_features df = Inr df' \<and> typed_frame df'"
proof (cases "has_col df ''soil_cec'' \<and> has_col df ''soil_phh2o''")
  case True
  with assms(2) have "has_col df ''soil_ph_stress''" by simp
  with True obtain a b where "num_col df ''soil_cec'' = Inr a" "num_col df ''soil_ph_stress'' = Inr b"
    using num_col_typed[OF assms(1)] by (meson not_categorical)
  with True assms show ?thesis by (simp add: soil_nutrient_features_def)
next
  case False
  then have "soil_nutrient_features df = Inr df"
    unfolding soil_nutrient_features_def by (rule if_not_P)
  with assms show ?thesis by simp
qed

lemma create_soil_features_typed:
  assumes "typed_frame df"
  shows "\<exists>df'. create_soil_features df = Inr df' \<and> typed_frame df'"
proof -
  from soil_texture_typed[OF assms] obtain df1
    where 1: "soil_texture_features df = Inr df1" "typed_frame df1" by blast
  from soil_ph_typed[OF 1(2)] obtain df2
    where 2: "soil_ph_features df1 = Inr df2" "typed_frame df2"
      "has_col df2 ''soil_phh2o'' \<longrightarrow> has_col df2 ''soil_ph_stress''" by blast
  from soil_organic_typed[OF 2(2,3)] obtain df3
    where 3: "soil_organic_features df2 = Inr df3" "typed_frame df3"
      "has_col df3 ''soil_phh2o'' \<longrightarrow> has_col df3 ''soil_ph_stress''" by blast
  from soil_nutrient_typed[OF 3(2,3)] obtain df4
    where 4: "soil_nutrient_features df3 = Inr df4" "typed_frame df4" by blast
  from 1 2 3 4 show ?thesis by (simp add: create_soil_features_def)
qed

lemma create_temporal_features_typed:
  assumes "typed_frame df"
  shows "\<exists>df'. create_temporal_features df = Inr df' \<and> typed_frame df'"
proof (cases "has_col df ''year''")
  case True
  then obtain a where "num_col df ''year'' = Inr a"
    using num_col_typed[OF assms] by (meson not_categorical)
  with True assms show ?thesis by (simp add: create_temporal_features_def)
next
  case False
  with assms show ?thesis by (simp add: create_temporal_features_def)
qed

lemma water_retention_typed:
  assumes "typed_frame df"
  shows "\<exists>df'. water_retention_feature df = Inr df' \<and> typed_frame df'"
proof (cases "has_col df ''precip_sum'' \<and> has_col df ''soil_clay''")
  case True
  then obtain a b where "num_col df ''precip_sum'' = Inr a" "num_col df ''soil_clay'' = Inr b"
    using num_col_typed[OF assms] by (meson not_categorical)
  with True assms show ?thesis by (simp add: water_retention_feature_def)
next
  case False
  then have "water_retention_feature df = Inr df"
    unfolding water_retention_feature_def by (rule if_not_P)
  with assms show ?thesis by simp
qed

lemma temp_organic_typed:
  assumes "typed_frame df"
  shows "\<exists>df'. temp_organic_feature df = Inr df' \<and> typed_frame df'"
proof (cases "has_col df ''temp_mean'' \<and> has_col df ''soil_soc''")
  case True
  then obtain a b where "num_col df ''temp_mean'' = Inr a" "num_col df ''soil_soc'' = Inr b"
    using num_col_typed[OF assms] by (meson not_categorical)
  with True assms show ?thesis by (simp add: temp_organic_feature_def)
next
  case False
  then have "temp_organic_feature df = Inr df"
    unfolding temp_organic_feature_def by (rule if_not_P)
  with assms show ?thesis by simp
qed

lemma gdd_ph_typed:
  assumes "typed_frame df"
  shows "\<exists>df'. gdd_ph_feature df = Inr df' \<and> typed_frame df'"
proof (cases "has_col df ''gdd'' \<and> has_col df ''soil_ph_optimal''")
  case True
  then obtain a b where "num_col df ''gdd'' = Inr a" "num_col df ''soil_ph_optimal'' = Inr b"
    using num_col_typed[OF assms] by (meson not_categorical)
  with True assms show ?thesis by (simp add: gdd_ph_feature_def)
next
  case False
  then have "gdd_ph_feature df = Inr df"
    unfolding gdd_ph_feature_def by (rule if_not_P)
  with assms show ?thesis by simp
qed

lemma stress_not_categorical: "contains c ''stress'' \<Longrightarrow> c \<notin> set categorical_cols"
  by (auto simp: categorical_cols_def)

lemma total_stress_typed:
  assumes "typed_frame df"
  shows "\<exists>df'. total_stress_feature df = Inr df' \<and> typed_frame df'"
proof -
  define stress_cols where "stress_cols = filter (\<lambda>c. contains c ''stress'') (columns df)"
  have "list_all (\<lambda>c. has_col df c \<and> c \<notin> set categorical_cols) stress_cols"
    by (auto simp: stress_cols_def list_all_iff has_col_def stress_not_categorical)
  from num_cols_typed[OF assms this] obtain cols where "num_cols df stress_cols = Inr cols" ..
  with assms show ?thesis
    by (simp add: total_stress_feature_def Let_def flip: stress_cols_def)
qed

lemma create_interaction_features_typed:
  assumes "typed_frame df"
  shows "\<exists>df'. create_interaction_features df = Inr df' \<and> typed_frame df'"
proof -
  from water_retention_typed[OF assms] obtain df1
    where 1: "water_retention_feature df = Inr df1" "typed_frame df1" by blast
  from temp_organic_typed[OF 1(2)] obtain df2
    where 2: "temp_organic_feature df1 = Inr df2" "typed_frame df2" by blast
  from gdd_ph_typed[OF 2(2)] obtain df3
    where 3: "gdd_ph_feature df2 = Inr df3" "typed_frame df3" by blast
  from total_stress_typed[OF 3(2)] obtain df4
    where 4: "total_stress_feature df3 = Inr df4" "typed_frame df4" by blast
  from 1 2 3 4 show ?thesis by (simp add: create_interaction_features_def)
qed


subsection \<open>Encoding at serve time\<close>

lemma le_index_hd [simp]: "le_index (c # cs) c = 0"
  by (simp add: le_index_def)

lemma encoded_name_neq [simp]: "c @ ''_encoded'' \<noteq> c" "c \<noteq> c @ ''_encoded''"
  by (auto dest: arg_cong[where f = length])

lemma encode_column_serve:
  assumes "map_of (encoders st) c \<noteq> Some []"
  shows "\<exists>df'. encode_categorical_column env False c (df, st) = Inr (df', st) \<and>
      (\<forall>k. k \<noteq> c \<longrightarrow> k \<noteq> c @ ''_encoded'' \<longrightarrow> map_of df' k = map_of df k) \<and>
      (\<forall>column classes. map_of df c = Some column \<longrightarrow> map_of (encoders st) c = Some classes \<longrightarrow>
          map_of df' (c @ ''_encoded'') =
            Some (encoded_col (map (\<lambda>v. if v \<in> set classes then le_index classes v else 0)
                                 (astype_str env column)))) \<and>
      (typed_frame df \<longrightarrow> c \<in> set categorical_cols \<longrightarrow> typed_frame df')"
proof (cases "map_of df c")
  case None
  then show ?thesis by (simp add: encode_categorical_column_def)
next
  case (Some column)
  note col = this
  show ?thesis
  proof (cases "map_of (encoders st) c")
    case None
    with col show ?thesis by (simp add: encode_categorical_column_def)
  next
    case (Some classes)
    with assms obtain m rest where cl: "classes = m # rest" by (cases classes) auto
    define vals where "vals = astype_str env column"
    show ?thesis
    proof (cases "set vals \<subseteq> set classes")
      case True
      then have codes: "map (le_index classes) vals =
          map (\<lambda>v. if v \<in> set classes then le_index classes v else 0) vals"
        by (intro map_cong) auto
      have "encode_categorical_column env False c (df, st) =
          Inr (set_col df (c @ ''_encoded'') (encoded_col (map (le_index classes) vals)), st)"
        using col Some True
        by (simp add: encode_categorical_column_def Let_def le_transform_def flip: vals_def)
      with col Some show ?thesis
        by (simp add: map_of_set_col typed_set_col encoded_col_def codes flip: vals_def)
    next
      case False
      define vals' where "vals' = map (\<lambda>x. if x \<in> set classes then x else m) vals"
      have sub: "set vals' \<subseteq> set classes" by (auto simp: vals'_def cl)
      have codes: "map (le_index classes) vals' =
          map (\<lambda>v. if v \<in> set classes then le_index classes v else 0) vals"
        by (simp add: vals'_def cl)
      have "encode_categorical_column env False c (df, st) =
          Inr (set_col (set_col df c (StrCol vals')) (c @ ''_encoded'')
                 (encoded_col (map (le_index classes) vals')), st)"
        using col Some False sub unfolding vals'_def
        by (simp add: encode_categorical_column_def Let_def le_transform_def cl flip: vals_def)
      with col Some show ?thesis
        by (simp add: map_of_set_col typed_set_col encoded_col_def codes flip: vals_def)
    qed
  qed
qed

lemma encode_categorical_features_typed:
  assumes "typed_frame df" and "encoders_fitted st"
  shows "\<exists>df'. encode_categorical_features env st df False = Inr (df', st) \<and> typed_frame df'"
proof -
  from assms(2) have f: "map_of (encoders st) ''state'' \<noteq> Some []"
      "map_of (encoders st) ''district'' \<noteq> Some []" "map_of (encoders st) ''crop'' \<noteq> Some []"
    by (simp_all add: encoders_fitted_def categorical_cols_def)
  from encode_column_serve[OF f(1), of env df] assms(1) obtain df1
    where 1: "encode_categorical_column env False ''state'' (df, st) = Inr (df1, st)"
      "typed_frame df1" by (auto simp: categorical_cols_def)
  from encode_column_serve[OF f(2), of env df1] 1(2) obtain df2
    where 2: "encode_categorical_column env False ''district'' (df1, st) = Inr (df2, st)"
      "typed_frame df2" by (auto simp: categorical_cols_def)
  from encode_column_serve[OF f(3), of env df2] 2(2) obtain df3
    where 3: "encode_categorical_column env False ''crop'' (df2, st) = Inr (df3, st)"
      "typed_frame df3" by (auto simp: categorical_cols_def)
  from 1 2 3 show ?thesis
    by (simp add: encode_categorical_features_def categorical_cols_def)
qed

lemma engineer_features_typed:
  assumes "typed_frame df" and "encoders_fitted st"
  shows "\<exists>dfe. engineer_features env st df False = Inr (dfe, st) \<and> typed_frame dfe"
proof -
  from create_weather_features_typed[OF assms(1)] obtain df1
    where 1: "create_weather_features df = Inr df1" "typed_frame df1" by blast
  from create_soil_features_typed[OF 1(2)] obtain df2
    where 2: "create_soil_features df1 = Inr df2" "typed_frame df2" by blast
  from create_temporal_features_typed[OF 2(2)] obtain df3
    where 3: "create_temporal_features df2 = Inr df3" "typed_frame df3" by blast
  from create_interaction_features_typed[OF 3(2)] obtain df4
    where 4: "create_interaction_features df3 = Inr df4" "typed_frame df4" by blast
  from encode_categorical_features_typed[OF 4(2) assms(2)] obtain df5
    where 5: "encode_categorical_features env st df4 False = Inr (df5, st)" "typed_frame df5"
    by blast
  from 1 2 3 4 5 show ?thesis by (simp add: engineer_features_def)
qed


subsection \<open>Selection, scaling and filling on numeric frames\<close>

lemma numeric_frame_iff: "numeric_frame X \<longleftrightarrow> (\<forall>(c, v) \<in> set X. is_num v)"
  by (simp add: numeric_frame_def list_all_iff)

lemma split_target_numeric:
  assumes "typed_frame dfe"
  shows "numeric_frame (fst (split_target dfe target_col))"
  using assms
  by (auto simp: split_target_def drop_cols_def numeric_frame_iff typed_frame_iff
      categorical_cols_def cols_to_remove_def)

lemma select_cols_present:
  "list_all (has_col X) cs \<Longrightarrow>
   \<exists>X2. select_cols X cs = Inr X2 \<and> columns X2 = cs \<and> set X2 \<subseteq> set X"
proof (induction cs)
  case Nil
  then show ?case by (simp add: columns_def)
next
  case (Cons c cs)
  then obtain X2 where X2: "select_cols X cs = Inr X2" "columns X2 = cs" "set X2 \<subseteq> set X"
    by auto
  from Cons.prems obtain v where v: "map_of X c = Some v" by (auto simp: has_col_map_of)
  then have "(c, v) \<in> set X" by (rule map_of_SomeD)
  with X2 v show ?case by (simp add: columns_def)
qed

lemma select_cols_Inr_columns: "select_cols X cs = Inr X2 \<Longrightarrow> columns X2 = cs"
  by (induction cs arbitrary: X2) (auto simp: columns_def split: option.splits sum.splits)

lemma num_col_numeric:
  assumes "numeric_frame X" and "has_col X c"
  shows "\<exists>xs. num_col X c = Inr xs"
proof -
  from assms(2) obtain v where v: "map_of X c = Some v" by (auto simp: has_col_map_of)
  then have "(c, v) \<in> set X" by (rule map_of_SomeD)
  with assms(1) have "is_num v" by (auto simp: numeric_frame_iff)
  with v show ?thesis by (cases v) (simp_all add: num_col_def)
qed

lemma numeric_set_col: "numeric_frame X \<Longrightarrow> numeric_frame (set_col X c (NumCol xs))"
  using set_update_subset[of c "NumCol xs" X]
  unfolding numeric_frame_iff set_col_def by fastforce

lemma fold_scale_transform_numeric:
  "numeric_frame X \<Longrightarrow> list_all (has_col X) cs \<Longrightarrow>
   \<exists>X'. fold_err scale_transform_column cs (X, st) = Inr (X', st) \<and>
        columns X' = columns X \<and> numeric_frame X'"
proof (induction cs arbitrary: X)
  case Nil
  then show ?case by simp
next
  case (Cons c cs)
  from Cons.prems have hc: "has_col X c" and rest: "list_all (has_col X) cs" by simp_all
  show ?case
  proof (cases "map_of (scalers st) c")
    case None
    then have "scale_transform_column c (X, st) = Inr (X, st)"
      by (simp add: scale_transform_column_def)
    with Cons.IH[OF Cons.prems(1) rest] show ?thesis by simp
  next
    case (Some sc)
    from num_col_numeric[OF Cons.prems(1) hc] obtain xs where xs: "num_col X c = Inr xs" ..
    define X1 where "X1 = set_col X c (NumCol (ss_transform sc xs))"
    have step: "scale_transform_column c (X, st) = Inr (X1, st)"
      using Some xs by (simp add: scale_transform_column_def X1_def)
    have n1: "numeric_frame X1" unfolding X1_def by (rule numeric_set_col[OF Cons.prems(1)])
    have c1: "columns X1 = columns X" unfolding X1_def by (rule columns_set_col_present[OF hc])
    have "list_all (has_col X1) cs" using rest by (simp add: X1_def list_all_iff)
    from Cons.IH[OF n1 this] step c1 show ?thesis by simp
  qed
qed

lemma cols_to_scale_present: "list_all (has_col X) (cols_to_scale X)"
  by (auto simp: cols_to_scale_def list_all_iff has_col_def columns_def)

lemma scale_features_serve_numeric:
  assumes "numeric_frame X"
  shows "\<exists>X'. scale_features st X False = Inr (X', st) \<and> columns X' = columns X \<and>
           numeric_frame X'"
  using fold_scale_transform_numeric[OF assms cols_to_scale_present]
  by (simp add: scale_features_def)

lemma fillna_median_numeric:
  "numeric_frame X \<Longrightarrow> \<exists>X'. fillna_median X = Inr X' \<and> columns X' = columns X"
proof (induction X)
  case Nil
  then show ?case by simp
next
  case (Cons p X)
  obtain c v where p: "p = (c, v)" by (cases p)
  from Cons.prems p obtain xs where v: "v = NumCol xs"
    by (cases v) (simp_all add: numeric_frame_def)
  from Cons.prems have "numeric_frame X" by (simp add: numeric_frame_def)
  from Cons.IH[OF this] obtain X' where "fillna_median X = Inr X'" "columns X' = columns X"
    by blast
  with p v show ?case by (simp add: columns_def)
qed

text \<open>A frame of at most two rows has no column to scale.\<close>

lemma nunique_le_col_len: "nunique v \<le> col_len v"
proof (cases v)
  case (NumCol xs)
  have "length (present xs) \<le> length xs"
    unfolding present_def by (induction xs) (auto split: option.splits)
  with length_remdups_leq[of "present xs"] have "length (remdups (present xs)) \<le> length xs"
    by linarith
  with NumCol show ?thesis by (simp add: nunique_def)
next
  case (StrCol xs)
  with length_remdups_leq[of xs] show ?thesis by (simp add: nunique_def)
qed

lemma cols_to_scale_few_rows:
  assumes "list_all (\<lambda>(c, v). col_len v \<le> 2) X"
  shows "cols_to_scale X = []"
proof -
  have "\<not> (case p of (col, v) \<Rightarrow> case v of StrCol xs \<Rightarrow> False | NumCol xs \<Rightarrow> \<not> skip_scaling col v)"
    if "p \<in> set X" for p
  proof -
    obtain c v where p: "p = (c, v)" by (cases p)
    with that assms have "col_len v \<le> 2" by (auto simp: list_all_iff)
    with nunique_le_col_len[of v] have "nunique v \<le> 2" by simp
    with p show ?thesis by (cases v) (simp_all add: skip_scaling_def)
  qed
  then show ?thesis by (simp add: cols_to_scale_def filter_empty_conv)
qed

lemma scale_features_serve_few_rows:
  assumes "list_all (\<lambda>(c, v). col_len v \<le> 2) X"
  shows "scale_features st X False = Inr (X, st)"
  by (simp add: scale_features_def cols_to_scale_few_rows[OF assms])


subsection \<open>The feature blocks keep the index\<close>

lemma uniform_iff: "uniform n df \<longleftrightarrow> (\<forall>(c, v) \<in> set df. col_len v = n)"
  by (simp add: uniform_def list_all_iff)

lemma uniform_set_col: "uniform n df \<Longrightarrow> col_len v = n \<Longrightarrow> uniform n (set_col df c v)"
  using set_update_subset[of c v df] unfolding uniform_iff set_col_def by blast

lemma uniform_n_rows: "uniform n df \<Longrightarrow> df \<noteq> [] \<Longrightarrow> n_rows df = n"
  by (cases df) (auto simp: uniform_def n_rows_def)

lemma map_of_uniform: "map_of df c = Some v \<Longrightarrow> uniform n df \<Longrightarrow> col_len v = n"
  by (auto simp: uniform_iff dest: map_of_SomeD)

lemma num_col_uniform: "num_col df c = Inr xs \<Longrightarrow> uniform n df \<Longrightarrow> length xs = n"
  by (auto simp: num_col_def split: option.splits column.splits dest: map_of_uniform)

lemma columns_set_col: "set (columns (set_col df c v)) = insert c (set (columns df))"
  by (auto simp: columns_def set_col_def update_keys)

lemma length_vmap [simp]: "length (vmap f xs) = length xs"
  by (simp add: vmap_def)

lemma length_vzip [simp]: "length (vzip f xs ys) = min (length xs) (length ys)"
  by (simp add: vzip_def)

lemma length_np_where [simp]: "length (np_where cond g d xs) = length xs"
  by (simp add: np_where_def)

lemma length_row_sums [simp]: "length (row_sums n cols) = n"
  by (simp add: row_sums_def)

lemma keeps_rowsI:
  assumes "\<And>df df' n. f df = Inr df' \<Longrightarrow> uniform n df \<Longrightarrow>
             (\<And>c xs. num_col df c = Inr xs \<Longrightarrow> length xs = n) \<Longrightarrow> uniform n df'"
      and "\<And>df df'. f df = Inr df' \<Longrightarrow> set (columns df) \<subseteq> set (columns df')"
  shows "keeps_rows f"
  unfolding keeps_rows_def
proof (intro allI impI conjI)
  fix df df' n
  assume r: "f df = Inr df'" and u: "uniform n df"
  show "uniform n df'" by (rule assms(1)[OF r u]) (rule num_col_uniform[OF _ u])
next
  fix df df'
  assume "f df = Inr df'"
  then show "set (columns df) \<subseteq> set (columns df')" by (rule assms(2))
qed

lemma keeps_rows_bind:
  assumes "keeps_rows f" and "keeps_rows g"
  shows "keeps_rows (\<lambda>df. bind_err (f df) g)"
  using assms unfolding keeps_rows_def bind_err_eq_Inr by (meson subset_trans)

lemma weather_temperature_keeps: "keeps_rows weather_temperature_features"
  by (rule keeps_rowsI)
    (auto simp: weather_temperature_features_def bind_err_eq_Inr uniform_set_col columns_set_col
      split: if_splits)

lemma weather_precipitation_keeps: "keeps_rows weather_precipitation_features"
  by (rule keeps_rowsI)
    (auto simp: weather_precipitation_features_def bind_err_eq_Inr uniform_set_col columns_set_col
      split: if_splits)

lemma weather_humidity_keeps: "keeps_rows weather_humidity_features"
  by (rule keeps_rowsI)
    (auto simp: weather_humidity_features_def bind_err_eq_Inr uniform_set_col columns_set_col
      split: if_splits)

lemma weather_solar_keeps: "keeps_rows weather_solar_features"
  by (rule keeps_rowsI)
    (auto simp: weather_solar_features_def bind_err_eq_Inr uniform_set_col columns_set_col
      split: if_splits)

lemma weather_gdd_keeps: "keeps_rows weather_gdd_features"
  by (rule keeps_rowsI)
    (auto simp: weather_gdd_features_def bind_err_eq_Inr uniform_set_col columns_set_col
      split: if_splits)

lemma create_weather_features_keeps: "keeps_rows create_weather_features"
  unfolding create_weather_features_def
  by (intro keeps_rows_bind weather_temperature_keeps weather_precipitation_keeps weather_humidity_keeps weather_solar_keeps weather_gdd_keeps)

lemma soil_texture_keeps: "keeps_rows soil_texture_features"
  by (rule keeps_rowsI)
    (auto simp: soil_texture_features_def bind_err_eq_Inr uniform_set_col columns_set_col
      split: if_splits)

lemma soil_ph_keeps: "keeps_rows soil_ph_features"
  by (rule keeps_rowsI)
    (auto simp: soil_ph_features_def bind_err_eq_Inr uniform_set_col columns_set_col
      split: if_splits)

lemma soil_organic_keeps: "keeps_rows soil_organic_features"
  by (rule keeps_rowsI)
    (auto simp: soil_organic_features_def bind_err_eq_Inr uniform_set_col columns_set_col
      split: if_splits)

lemma soil_nutrient_keeps: "keeps_rows soil_nutrient_features"
  by (rule keeps_rowsI)
    (auto simp: soil_nutrient_features_def bind_err_eq_Inr uniform_set_col columns_set_col
      split: if_splits)

lemma create_soil_features_keeps: "keeps_rows create_soil_features"
  unfolding create_soil_features_def
  by (intro keeps_rows_bind soil_texture_keeps soil_ph_keeps soil_organic_keeps soil_nutrient_keeps)

lemma create_temporal_features_keeps: "keeps_rows create_temporal_features"
  by (rule keeps_rowsI)
    (auto simp: create_temporal_features_def bind_err_eq_Inr uniform_set_col columns_set_col
      split: if_splits option.splits)

lemma water_retention_keeps: "keeps_rows water_retention_feature"
  by (rule keeps_rowsI)
    (auto simp: water_retention_feature_def bind_err_eq_Inr uniform_set_col columns_set_col
      split: if_splits)

lemma temp_organic_keeps: "keeps_rows temp_organic_feature"
  by (rule keeps_rowsI)
    (auto simp: temp_organic_feature_def bind_err_eq_Inr uniform_set_col columns_set_col
      split: if_splits)

lemma gdd_ph_keeps: "keeps_rows gdd_ph_feature"
  by (rule keeps_rowsI)
    (auto simp: gdd_ph_feature_def bind_err_eq_Inr uniform_set_col columns_set_col
      split: if_splits)

lemma total_stress_keeps: "keeps_rows total_stress_feature"
proof (rule keeps_rowsI)
  fix df df' n
  assume r: "total_stress_feature df = Inr df'" and u: "uniform n df"
  show "uniform n df'"
  proof (cases "df = []")
    case True
    with r show ?thesis by (simp add: total_stress_feature_def columns_def uniform_def)
  next
    case False
    with u have "n_rows df = n" by (simp add: uniform_n_rows)
    with r u show ?thesis
      by (auto simp: total_stress_feature_def Let_def bind_err_eq_Inr uniform_set_col
          split: if_splits)
  qed
next
  fix df df'
  assume "total_stress_feature df = Inr df'"
  then show "set (columns df) \<subseteq> set (columns df')"
    by (auto simp: total_stress_feature_def Let_def bind_err_eq_Inr columns_set_col
        split: if_splits)
qed

lemma create_interaction_features_keeps: "keeps_rows create_interaction_features"
  unfolding create_interaction_features_def
  by (intro keeps_rows_bind water_retention_keeps temp_organic_keeps gdd_ph_keeps total_stress_keeps)

lemma le_transform_length: "le_transform classes vals = Inr codes \<Longrightarrow> length codes = length vals"
  by (auto simp: le_transform_def split: if_splits)

lemma astype_str_length [simp]: "length (astype_str env column) = col_len column"
  by (cases column) (simp_all add: astype_str_def)

lemma encode_column_shape:
  assumes r: "encode_categorical_column env False c (df, st) = Inr (df', st')"
  shows "df' = df \<or>
     (\<exists>column vals codes. map_of df c = Some column \<and> length codes = col_len column \<and>
        length vals = col_len column \<and>
        (df' = set_col df (c @ ''_encoded'') (encoded_col codes) \<or>
         df' = set_col (set_col df c (StrCol vals)) (c @ ''_encoded'') (encoded_col codes)))"
proof (cases "map_of df c")
  case None
  with r show ?thesis by (simp add: encode_categorical_column_def)
next
  case (Some column)
  note col = this
  show ?thesis
  proof (cases "map_of (encoders st) c")
    case None
    with col r show ?thesis by (simp add: encode_categorical_column_def)
  next
    case (Some classes)
    define vals where "vals = astype_str env column"
    have lv: "length vals = col_len column" by (simp add: vals_def)
    show ?thesis
    proof (cases "set vals \<subseteq> set classes")
      case True
      with r col Some
      have "df' = set_col df (c @ ''_encoded'') (encoded_col (map (le_index classes) vals))"
        by (simp add: encode_categorical_column_def Let_def le_transform_def flip: vals_def)
      with col lv show ?thesis by (intro disjI2 exI[of _ column] exI[of _ vals]
            exI[of _ "map (le_index classes) vals"]) simp
    next
      case False
      show ?thesis
      proof (cases classes)
        case Nil
        with r col Some False show ?thesis
          by (simp add: encode_categorical_column_def Let_def flip: vals_def)
      next
        case (Cons m rest)
        define vals' where "vals' = map (\<lambda>x. if x \<in> set classes then x else m) vals"
        have sub: "set vals' \<subseteq> set classes" by (auto simp: vals'_def Cons)
        have lv': "length vals' = col_len column" by (simp add: vals'_def lv)
        from r col Some False sub
        have "df' = set_col (set_col df c (StrCol vals')) (c @ ''_encoded'')
                      (encoded_col (map (le_index classes) vals'))"
          unfolding vals'_def
          by (simp add: encode_categorical_column_def Let_def le_transform_def Cons flip: vals_def)
        with col lv' show ?thesis by (intro disjI2 exI[of _ column] exI[of _ vals']
              exI[of _ "map (le_index classes) vals'"]) simp
      qed
    qed
  qed
qed

lemma encode_column_keeps:
  assumes "encode_categorical_column env False c (df, st) = Inr (df', st')"
  shows "uniform n df \<Longrightarrow> uniform n df'" and "set (columns df) \<subseteq> set (columns df')"
  using encode_column_shape[OF assms]
  by (auto simp: uniform_set_col columns_set_col encoded_col_def dest: map_of_uniform)

lemma encode_categorical_features_keeps:
  assumes "encode_categorical_features env st df False = Inr (df', st')"
  shows "uniform n df \<Longrightarrow> uniform n df'" and "set (columns df) \<subseteq> set (columns df')"
proof -
  from assms obtain df1 st1 df2 st2
    where 1: "encode_categorical_column env False ''state'' (df, st) = Inr (df1, st1)"
      and 2: "encode_categorical_column env False ''district'' (df1, st1) = Inr (df2, st2)"
      and 3: "encode_categorical_column env False ''crop'' (df2, st2) = Inr (df', st')"
    by (auto simp: encode_categorical_features_def categorical_cols_def split: sum.splits)
  show "uniform n df \<Longrightarrow> uniform n df'"
    using encode_column_keeps(1)[OF 1] encode_column_keeps(1)[OF 2] encode_column_keeps(1)[OF 3]
    by blast
  show "set (columns df) \<subseteq> set (columns df')"
    using encode_column_keeps(2)[OF 1] encode_column_keeps(2)[OF 2] encode_column_keeps(2)[OF 3]
    by blast
qed

lemma keeps_rowsD:
  assumes "keeps_rows f" and "f df = Inr df'"
  shows "uniform n df \<Longrightarrow> uniform n df'" and "set (columns df) \<subseteq> set (columns df')"
  using assms unfolding keeps_rows_def by blast+

lemma engineer_features_keeps:
  assumes "engineer_features env st df False = Inr (dfe, st')"
  shows "uniform n df \<Longrightarrow> uniform n dfe" and "set (columns df) \<subseteq> set (columns dfe)"
proof -
  from assms obtain df1 where 1: "create_weather_features df = Inr df1"
    by (cases "create_weather_features df") (simp_all add: engineer_features_def bind_err_def)
  from assms 1 obtain df2 where 2: "create_soil_features df1 = Inr df2"
    by (cases "create_soil_features df1") (simp_all add: engineer_features_def bind_err_def)
  from assms 1 2 obtain df3 where 3: "create_temporal_features df2 = Inr df3"
    by (cases "create_temporal_features df2") (simp_all add: engineer_features_def bind_err_def)
  from assms 1 2 3 obtain df4 where 4: "create_interaction_features df3 = Inr df4"
    by (cases "create_interaction_features df3") (simp_all add: engineer_features_def bind_err_def)
  from assms 1 2 3 4 have 5: "encode_categorical_features env st df4 False = Inr (dfe, st')"
    by (cases "encode_categorical_features env st df4 False")
      (auto simp: engineer_features_def bind_err_def)
  show "uniform n dfe" if u: "uniform n df"
  proof -
    note u1 = keeps_rowsD(1)[OF create_weather_features_keeps 1 u]
    note u2 = keeps_rowsD(1)[OF create_soil_features_keeps 2 u1]
    note u3 = keeps_rowsD(1)[OF create_temporal_features_keeps 3 u2]
    note u4 = keeps_rowsD(1)[OF create_interaction_features_keeps 4 u3]
    show ?thesis by (rule encode_categorical_features_keeps(1)[OF 5 u4])
  qed
  show "set (columns df) \<subseteq> set (columns dfe)"
    using keeps_rowsD(2)[OF create_weather_features_keeps 1]
      keeps_rowsD(2)[OF create_soil_features_keeps 2]
      keeps_rowsD(2)[OF create_temporal_features_keeps 3]
      keeps_rowsD(2)[OF create_interaction_features_keeps 4]
      encode_categorical_features_keeps(2)[OF 5]
    by (blast intro: subset_trans)
qed

lemma fillna_median_uniform: "fillna_median X = Inr X' \<Longrightarrow> uniform n X \<Longrightarrow> uniform n X'"
proof (induction X arbitrary: X' rule: fillna_median.induct)
  case 1
  then show ?case by simp
next
  case (2 c xs rest)
  then show ?case by simp
next
  case (3 c xs rest)
  then show ?case by (auto simp: uniform_def split: sum.splits option.splits)
qed

lemma uniform_subset: "uniform n X \<Longrightarrow> set X' \<subseteq> set X \<Longrightarrow> uniform n X'"
  by (auto simp: uniform_iff)

lemma split_target_uniform: "uniform n dfe \<Longrightarrow> uniform n (fst (split_target dfe target_col))"
  by (rule uniform_subset) (auto simp: split_target_def drop_cols_def)

lemma split_target_has_col:
  "has_col dfe c \<Longrightarrow> c \<noteq> target_col \<Longrightarrow> c \<notin> set cols_to_remove \<Longrightarrow>
   has_col (fst (split_target dfe target_col)) c"
  by (auto simp: split_target_def drop_cols_def has_col_def columns_def)

lemma uniform_few_rows: "uniform n X \<Longrightarrow> n \<le> 2 \<Longrightarrow> list_all (\<lambda>(c, v). col_len v \<le> 2) X"
  by (auto simp: uniform_def list_all_iff)


subsection \<open>The serve-time transform succeeds on well-typed records\<close>

lemma prepare_features_serve_total:
  assumes "typed_frame df" and "encoders_fitted st"
  shows "\<exists>dfe X y. engineer_features env st df False = Inr (dfe, st) \<and>
           prepare_features env st df target_col False feature_selection = Inr ((X, y), st) \<and>
           columns X =
             (if selected_features st = [] then columns (fst (split_target dfe target_col))
              else filter (has_col (fst (split_target dfe target_col))) (selected_features st)) \<and>
           (\<forall>n. n \<le> 2 \<longrightarrow> uniform n df \<longrightarrow> uniform n X) \<and>
           set (columns df) \<subseteq> set (columns dfe)"
proof -
  from engineer_features_typed[OF assms] obtain dfe
    where e: "engineer_features env st df False = Inr (dfe, st)" and t: "typed_frame dfe"
    by blast
  define X0 where "X0 = fst (split_target dfe target_col)"
  define y where "y = snd (split_target dfe target_col)"
  have n0: "numeric_frame X0" unfolding X0_def by (rule split_target_numeric[OF t])
  have "\<exists>X2. (selected_features st \<noteq> [] \<longrightarrow>
             select_cols X0 (filter (has_col X0) (selected_features st)) = Inr X2) \<and>
          (selected_features st = [] \<longrightarrow> X2 = X0) \<and> numeric_frame X2 \<and>
          columns X2 = (if selected_features st = [] then columns X0
                        else filter (has_col X0) (selected_features st)) \<and>
          set X2 \<subseteq> set X0"
  proof (cases "selected_features st = []")
    case True
    with n0 show ?thesis by simp
  next
    case False
    have "list_all (has_col X0) (filter (has_col X0) (selected_features st))"
      by (simp add: list_all_iff)
    from select_cols_present[OF this] obtain X2
      where X2: "select_cols X0 (filter (has_col X0) (selected_features st)) = Inr X2"
        "columns X2 = filter (has_col X0) (selected_features st)" "set X2 \<subseteq> set X0"
      by blast
    from X2(3) n0 have "numeric_frame X2" by (auto simp: numeric_frame_iff)
    with X2 False show ?thesis by simp
  qed
  then obtain X2
    where s1: "selected_features st \<noteq> [] \<longrightarrow>
             select_cols X0 (filter (has_col X0) (selected_features st)) = Inr X2"
      and s2: "selected_features st = [] \<longrightarrow> X2 = X0"
      and n2: "numeric_frame X2"
      and c2: "columns X2 = (if selected_features st = [] then columns X0
                             else filter (has_col X0) (selected_features st))"
      and sub: "set X2 \<subseteq> set X0"
    by blast
  from scale_features_serve_numeric[OF n2] obtain X3
    where 3: "scale_features st X2 False = Inr (X3, st)" "columns X3 = columns X2"
      "numeric_frame X3" by blast
  from fillna_median_numeric[OF 3(3)] obtain X4
    where 4: "fillna_median X3 = Inr X4" "columns X4 = columns X3" by blast
  have "prepare_features env st df target_col False feature_selection = Inr ((X4, y), st)"
    unfolding prepare_features_def e
    using s1 s2 3(1) 4(1)
    unfolding X0_def y_def
    by (cases "snd (split_target dfe target_col)"; cases "selected_features st = []";
        simp add: Let_def)
  moreover have "uniform n X4" if n: "n \<le> 2" and u: "uniform n df" for n
  proof -
    from engineer_features_keeps(1)[OF e u] have "uniform n X0"
      unfolding X0_def by (rule split_target_uniform)
    then have u2: "uniform n X2" using sub by (rule uniform_subset)
    from scale_features_serve_few_rows[OF uniform_few_rows[OF u2 n], of st] 3(1)
    have "X3 = X2" by simp
    with u2 4(1) show ?thesis by (simp add: fillna_median_uniform)
  qed
  moreover note engineer_features_keeps(2)[OF e]
  ultimately show ?thesis using e c2 3(2) 4(2) unfolding X0_def by auto
qed


section \<open>Feature engineering: properties\<close>

text \<open>
  C1 fails on the code. The heuristic that decides which columns are scaled is evaluated
  again at serve time, on the frame of the request, and a column of that frame has at
  most one distinct value: no column is scaled. Here the engineer is fitted on the four
  precipitation sums 730, 790, 810, 870 (mean 800, deviation 50, the column is scaled at
  fit time); at serve time the sum 850 is returned as 850, by \<open>scale_features\<close> and by
  \<open>prepare_features\<close>, where the frozen parameters give 1.
\<close>

theorem scale_features_serve_single_row_unscaled:
  "scale_features FeatureEngineer_init
     [(''precip_sum'', NumCol [Some 730, Some 790, Some 810, Some 870])] True =
   Inr ([(''precip_sum'', NumCol [Some (- 7 / 5), Some (- 1 / 5), Some (1 / 5), Some (7 / 5)])],
        \<lparr>scalers = [(''precip_sum'', \<lparr>sc_mean = 800, sc_scale = 50\<rparr>)], encoders = [],
          feature_names = [], selected_features = []\<rparr>) \<and>
   scale_features
     \<lparr>scalers = [(''precip_sum'', \<lparr>sc_mean = 800, sc_scale = 50\<rparr>)], encoders = [],
       feature_names = [], selected_features = []\<rparr>
     [(''precip_sum'', NumCol [Some 850])] False =
   Inr ([(''precip_sum'', NumCol [Some 850])],
        \<lparr>scalers = [(''precip_sum'', \<lparr>sc_mean = 800, sc_scale = 50\<rparr>)], encoders = [],
          feature_names = [], selected_features = []\<rparr>) \<and>
   prepare_features sample_env
     \<lparr>scalers = [(''precip_sum'', \<lparr>sc_mean = 800, sc_scale = 50\<rparr>)], encoders = [],
       feature_names = [], selected_features = []\<rparr>
     [(''precip_sum'', NumCol [Some 850])] ''yield_t_ha'' False False =
   Inr (([(''precip_sum'', NumCol [Some 850])], None),
        \<lparr>scalers = [(''precip_sum'', \<lparr>sc_mean = 800, sc_scale = 50\<rparr>)], encoders = [],
          feature_names = [], selected_features = []\<rparr>) \<and>
   ss_transform \<lparr>sc_mean = 800, sc_scale = 50\<rparr> [Some 850] = [Some 1]"
proof -
  have sq: "sqrt 2500 = 50" using real_sqrt_abs[of 50] by simp
  have a: "scale_features FeatureEngineer_init
     [(''precip_sum'', NumCol [Some 730, Some 790, Some 810, Some 870])] True =
   Inr ([(''precip_sum'', NumCol [Some (- 7 / 5), Some (- 1 / 5), Some (1 / 5), Some (7 / 5)])],
        \<lparr>scalers = [(''precip_sum'', \<lparr>sc_mean = 800, sc_scale = 50\<rparr>)], encoders = [],
          feature_names = [], selected_features = []\<rparr>)"
    by (simp add: frame_eval FeatureEngineer_init_def sq)
  have b: "scale_features
     \<lparr>scalers = [(''precip_sum'', \<lparr>sc_mean = 800, sc_scale = 50\<rparr>)], encoders = [],
       feature_names = [], selected_features = []\<rparr>
     [(''precip_sum'', NumCol [Some 850])] False =
   Inr ([(''precip_sum'', NumCol [Some 850])],
        \<lparr>scalers = [(''precip_sum'', \<lparr>sc_mean = 800, sc_scale = 50\<rparr>)], encoders = [],
          feature_names = [], selected_features = []\<rparr>)"
    by (rule scale_features_serve_few_rows) simp
  have c: "prepare_features sample_env
     \<lparr>scalers = [(''precip_sum'', \<lparr>sc_mean = 800, sc_scale = 50\<rparr>)], encoders = [],
       feature_names = [], selected_features = []\<rparr>
     [(''precip_sum'', NumCol [Some 850])] ''yield_t_ha'' False False =
   Inr (([(''precip_sum'', NumCol [Some 850])], None),
        \<lparr>scalers = [(''precip_sum'', \<lparr>sc_mean = 800, sc_scale = 50\<rparr>)], encoders = [],
          feature_names = [], selected_features = []\<rparr>)"
    by (simp add: feature_eval frame_eval)
  have d: "ss_transform \<lparr>sc_mean = 800, sc_scale = 50\<rparr> [Some 850] = [Some 1]"
    by (simp add: ss_transform_def fdiv_def)
  from a b c d show ?thesis by (intro conjI)
qed

text \<open>
  C2, as stated, fails: the frozen selected list names \<open>soil_ph_stress\<close>, the record has
  no soil pH and so no such feature, and the call returns the two features that are
  there instead of failing.
\<close>

theorem prepare_features_missing_name_counterexample:
  "prepare_features sample_env
     \<lparr>scalers = [], encoders = [], feature_names = [],
       selected_features = [''precip_sum'', ''humidity_stress'', ''soil_ph_stress'']\<rparr>
     [(''crop'', StrCol [''rice'']), (''precip_sum'', NumCol [Some 850]),
      (''humidity_mean'', NumCol [Some 90])]
     ''yield_t_ha'' False False =
   Inr (([(''precip_sum'', NumCol [Some 850]), (''humidity_stress'', NumCol [Some 5])], None),
        \<lparr>scalers = [], encoders = [], feature_names = [],
          selected_features = [''precip_sum'', ''humidity_stress'', ''soil_ph_stress'']\<rparr>)"
  by (simp add: feature_eval frame_eval)

text \<open>
  C2, amended. For every serve-time call of the feature pipeline (\<open>prepare_features\<close>
  with \<open>fit=False\<close>) on a well-typed record, with fitted encoders and a frozen selected
  list that is not empty, the call succeeds and leaves the engineer as it was; a frozen
  name that the computed feature set lacks is dropped, and the names of the produced
  feature vector are the frozen names that the computed set has, in the frozen order:
  the frozen list itself when no name is missing.
\<close>

theorem prepare_features_serve_replays_selection:
  assumes "typed_frame df" and "encoders_fitted st" and "selected_features st \<noteq> []"
  shows "\<exists>dfe X y. engineer_features env st df False = Inr (dfe, st) \<and>
           prepare_features env st df target_col False feature_selection = Inr ((X, y), st) \<and>
           columns X =
             filter (has_col (fst (split_target dfe target_col))) (selected_features st) \<and>
           (if list_all (has_col (fst (split_target dfe target_col))) (selected_features st)
            then columns X = selected_features st else True)"
proof -
  from prepare_features_serve_total[OF assms(1,2), of env target_col feature_selection]
  obtain dfe X y where *: "engineer_features env st df False = Inr (dfe, st)"
      "prepare_features env st df target_col False feature_selection = Inr ((X, y), st)"
      "columns X = filter (has_col (fst (split_target dfe target_col))) (selected_features st)"
    using assms(3) by auto
  have "columns X = selected_features st"
    if "list_all (has_col (fst (split_target dfe target_col))) (selected_features st)"
    using that *(3) by (simp add: list_all_iff)
  with * show ?thesis by auto
qed

theorem prepare_features_serve_replays_selection_witness:
  "typed_frame [(''crop'', StrCol [''rice'']), (''precip_sum'', NumCol [Some 850]),
                (''humidity_mean'', NumCol [Some 90])] \<and>
   encoders_fitted \<lparr>scalers = [], encoders = [], feature_names = [],
       selected_features = [''precip_sum'', ''humidity_stress'']\<rparr> \<and>
   prepare_features sample_env
     \<lparr>scalers = [], encoders = [], feature_names = [],
       selected_features = [''precip_sum'', ''humidity_stress'']\<rparr>
     [(''crop'', StrCol [''rice'']), (''precip_sum'', NumCol [Some 850]),
      (''humidity_mean'', NumCol [Some 90])]
     ''yield_t_ha'' False False =
   Inr (([(''precip_sum'', NumCol [Some 850]), (''humidity_stress'', NumCol [Some 5])], None),
        \<lparr>scalers = [], encoders = [], feature_names = [],
          selected_features = [''precip_sum'', ''humidity_stress'']\<rparr>)"
proof -
  let ?df = "[(''crop'', StrCol [''rice'']), (''precip_sum'', NumCol [Some 850]),
              (''humidity_mean'', NumCol [Some 90])]"
  let ?st = "\<lparr>scalers = [], encoders = [], feature_names = [],
               selected_features = [''precip_sum'', ''humidity_stress'']\<rparr>"
  have ty: "typed_frame ?df" by (simp add: typed_frame_def categorical_cols_def)
  have fi: "encoders_fitted ?st" by (simp add: encoders_fitted_def categorical_cols_def)
  have ne: "selected_features ?st \<noteq> []" by simp
  have ev: "prepare_features sample_env ?st ?df ''yield_t_ha'' False False =
      Inr (([(''precip_sum'', NumCol [Some 850]), (''humidity_stress'', NumCol [Some 5])], None),
           ?st)"
    by (simp add: feature_eval frame_eval)
  from prepare_features_serve_replays_selection[OF ty fi ne, of sample_env "''yield_t_ha''" False]
  obtain X y where "prepare_features sample_env ?st ?df ''yield_t_ha'' False False =
      Inr ((X, y), ?st)" by blast
  with ev ty fi show ?thesis by (intro conjI)
qed

text \<open>
  C3. At serve time (\<open>fit=False\<close>), when every encoder of the engineer has a class,
  \<open>encode_categorical_features\<close> never raises and leaves the engineer as it was; for a
  categorical field with an encoder, the code of a value is its position among the learned
  classes, and the code of a value that is not among them is 0, the code of the first
  learned class \<open>classes_[0]\<close>. The code depends on the learned classes and the value
  only.
\<close>

theorem encode_unseen_category_fallback:
  assumes "encoders_fitted st"
      and "col \<in> set categorical_cols"
      and "map_of (encoders st) col = Some classes"
      and "map_of df col = Some column"
  shows "\<exists>df'. encode_categorical_features env st df False = Inr (df', st) \<and>
           map_of df' (col @ ''_encoded'') =
             Some (encoded_col (map (\<lambda>v. if v \<in> set classes then le_index classes v else 0)
                                  (astype_str env column))) \<and>
           le_index classes (hd classes) = 0"
proof -
  from assms(1) have f: "map_of (encoders st) ''state'' \<noteq> Some []"
      "map_of (encoders st) ''district'' \<noteq> Some []" "map_of (encoders st) ''crop'' \<noteq> Some []"
    by (simp_all add: encoders_fitted_def categorical_cols_def)
  from assms(2,3) f have "classes \<noteq> []" by (auto simp: categorical_cols_def)
  then have hd0: "le_index classes (hd classes) = 0" by (cases classes) simp_all
  define code where "code = Some (encoded_col
      (map (\<lambda>v. if v \<in> set classes then le_index classes v else 0) (astype_str env column)))"
  from encode_column_serve[OF f(1), of env df] obtain df1
    where 1: "encode_categorical_column env False ''state'' (df, st) = Inr (df1, st)"
      "\<forall>k. k \<noteq> ''state'' \<longrightarrow> k \<noteq> ''state'' @ ''_encoded'' \<longrightarrow> map_of df1 k = map_of df k"
      "\<forall>column classes. map_of df ''state'' = Some column \<longrightarrow>
          map_of (encoders st) ''state'' = Some classes \<longrightarrow>
          map_of df1 (''state'' @ ''_encoded'') =
            Some (encoded_col (map (\<lambda>v. if v \<in> set classes then le_index classes v else 0)
                                 (astype_str env column)))"
    by blast
  from encode_column_serve[OF f(2), of env df1] obtain df2
    where 2: "encode_categorical_column env False ''district'' (df1, st) = Inr (df2, st)"
      "\<forall>k. k \<noteq> ''district'' \<longrightarrow> k \<noteq> ''district'' @ ''_encoded'' \<longrightarrow> map_of df2 k = map_of df1 k"
      "\<forall>column classes. map_of df1 ''district'' = Some column \<longrightarrow>
          map_of (encoders st) ''district'' = Some classes \<longrightarrow>
          map_of df2 (''district'' @ ''_encoded'') =
            Some (encoded_col (map (\<lambda>v. if v \<in> set classes then le_index classes v else 0)
                                 (astype_str env column)))"
    by blast
  from encode_column_serve[OF f(3), of env df2] obtain df3
    where 3: "encode_categorical_column env False ''crop'' (df2, st) = Inr (df3, st)"
      "\<forall>k. k \<noteq> ''crop'' \<longrightarrow> k \<noteq> ''crop'' @ ''_encoded'' \<longrightarrow> map_of df3 k = map_of df2 k"
      "\<forall>column classes. map_of df2 ''crop'' = Some column \<longrightarrow>
          map_of (encoders st) ''crop'' = Some classes \<longrightarrow>
          map_of df3 (''crop'' @ ''_encoded'') =
            Some (encoded_col (map (\<lambda>v. if v \<in> set classes then le_index classes v else 0)
                                 (astype_str env column)))"
    by blast
  have run: "encode_categorical_features env st df False = Inr (df3, st)"
    using 1(1) 2(1) 3(1) by (simp add: encode_categorical_features_def categorical_cols_def)
  from assms(2) consider "col = ''state''" | "col = ''district''" | "col = ''crop''"
    by (auto simp: categorical_cols_def)
  then have "map_of df3 (col @ ''_encoded'') = code"
  proof cases
    case 1
    with assms(3,4) \<open>\<forall>column classes. map_of df ''state'' = Some column \<longrightarrow> _\<close>
    have "map_of df1 (''state'' @ ''_encoded'') = code" by (simp add: code_def)
    moreover have "map_of df3 ''state_encoded'' = map_of df2 ''state_encoded''"
      using 3(2) by simp
    moreover have "map_of df2 ''state_encoded'' = map_of df1 ''state_encoded''"
      using 2(2) by simp
    ultimately show ?thesis using 1 by simp
  next
    case 2
    have "map_of df1 ''district'' = map_of df ''district''"
      using \<open>\<forall>k. k \<noteq> ''state'' \<longrightarrow> _\<close> by simp
    with 2 assms(3,4) \<open>\<forall>column classes. map_of df1 ''district'' = Some column \<longrightarrow> _\<close>
    have "map_of df2 (''district'' @ ''_encoded'') = code" by (simp add: code_def)
    moreover have "map_of df3 ''district_encoded'' = map_of df2 ''district_encoded''"
      using 3(2) by simp
    ultimately show ?thesis using 2 by simp
  next
    case 3
    have "map_of df1 ''crop'' = map_of df ''crop''"
      using \<open>\<forall>k. k \<noteq> ''state'' \<longrightarrow> _\<close> by simp
    moreover have "map_of df2 ''crop'' = map_of df1 ''crop''"
      using \<open>\<forall>k. k \<noteq> ''district'' \<longrightarrow> _\<close> by simp
    ultimately have "map_of df2 ''crop'' = Some column" using 3 assms(4) by simp
    with 3 assms(3) \<open>\<forall>column classes. map_of df2 ''crop'' = Some column \<longrightarrow> _\<close>
    show ?thesis by (simp add: code_def)
  qed
  with run hd0 show ?thesis unfolding code_def by blast
qed


theorem encode_unseen_category_fallback_witness:
  "encoders_fitted
     \<lparr>scalers = [], encoders = [(''crop'', le_fit [''wheat'', ''rice'', ''rice''])],
       feature_names = [], selected_features = []\<rparr> \<and>
   ''crop'' \<in> set categorical_cols \<and>
   le_fit [''wheat'', ''rice'', ''rice''] = [''rice'', ''wheat''] \<and>
   encode_categorical_features sample_env
     \<lparr>scalers = [], encoders = [(''crop'', le_fit [''wheat'', ''rice'', ''rice''])],
       feature_names = [], selected_features = []\<rparr>
     [(''crop'', StrCol [''maize'']), (''precip_sum'', NumCol [Some 850])] False =
   Inr ([(''crop'', StrCol [''rice'']), (''precip_sum'', NumCol [Some 850]),
         (''crop_encoded'', NumCol [Some 0])],
        \<lparr>scalers = [], encoders = [(''crop'', le_fit [''wheat'', ''rice'', ''rice''])],
          feature_names = [], selected_features = []\<rparr>)"
proof -
  have lf: "le_fit [''wheat'', ''rice'', ''rice''] = [''rice'', ''wheat'']"
    by (simp add: le_fit_def less_char_def less_eq_char_def)
  have ev: "encode_categorical_features sample_env
     \<lparr>scalers = [], encoders = [(''crop'', le_fit [''wheat'', ''rice'', ''rice''])],
       feature_names = [], selected_features = []\<rparr>
     [(''crop'', StrCol [''maize'']), (''precip_sum'', NumCol [Some 850])] False =
   Inr ([(''crop'', StrCol [''rice'']), (''precip_sum'', NumCol [Some 850]),
         (''crop_encoded'', NumCol [Some 0])],
        \<lparr>scalers = [], encoders = [(''crop'', le_fit [''wheat'', ''rice'', ''rice''])],
          feature_names = [], selected_features = []\<rparr>)"
    unfolding lf
    by (simp add: encode_categorical_features_def encode_categorical_column_def
        categorical_cols_def astype_str_def le_transform_def le_index_def encoded_col_def
        set_col_def Let_def)
  have fi: "encoders_fitted
     \<lparr>scalers = [], encoders = [(''crop'', le_fit [''wheat'', ''rice'', ''rice''])],
       feature_names = [], selected_features = []\<rparr>"
    unfolding lf by (simp add: encoders_fitted_def categorical_cols_def)
  show ?thesis
    using encode_unseen_category_fallback[where col = "''crop''"
        and classes = "[''rice'', ''wheat'']" and column = "StrCol [''maize'']"
        and df = "[(''crop'', StrCol [''maize'']), (''precip_sum'', NumCol [Some 850])]"
        and env = sample_env
        and st = "\<lparr>scalers = [], encoders = [(''crop'', le_fit [''wheat'', ''rice'', ''rice''])],
                    feature_names = [], selected_features = []\<rparr>"]
      ev fi lf
    by (simp add: categorical_cols_def)
qed


section \<open>Prediction service: properties\<close>

subsection \<open>The frame of a request\<close>

text \<open>
  The frame that the service builds of a request has one row, strings in the columns
  \<open>state\<close>, \<open>district\<close> and \<open>crop\<close> only, and a column for every default.
\<close>

lemma row_typed_iff:
  "row_typed data \<longleftrightarrow>
   (\<forall>(k, v) \<in> set data. case v of NumV x \<Rightarrow> True | StrV s \<Rightarrow> k \<in> set categorical_cols)"
  by (simp add: row_typed_def list_all_iff)

lemma row_typed_update: "row_typed d \<Longrightarrow> row_typed (AList.update k (NumV x) d)"
  using set_update_subset[of k "NumV x" d] unfolding row_typed_iff by fastforce

lemma row_typed_dict_update:
  "row_typed d \<Longrightarrow> list_all (\<lambda>(k, v). case v of NumV x \<Rightarrow> True | StrV s \<Rightarrow> False) items \<Longrightarrow>
   row_typed (dict_update d items)"
proof (induction items arbitrary: d)
  case Nil
  then show ?case by (simp add: dict_update_def)
next
  case (Cons item items)
  obtain k v where item: "item = (k, v)" by (cases item)
  with Cons.prems(2) obtain x where v: "v = NumV x" by (cases v) simp_all
  from Cons.prems(2) have rest: "list_all (\<lambda>(k, v). case v of NumV x \<Rightarrow> True | StrV s \<Rightarrow> False) items"
    by simp
  from Cons.IH[OF row_typed_update[OF Cons.prems(1), of k x] rest] item v
  show ?case by (simp add: dict_update_def)
qed

lemma update_nonempty: "AList.update k v d \<noteq> []"
  by (cases d) auto

lemma dict_update_nonempty: "d \<noteq> [] \<Longrightarrow> dict_update d items \<noteq> []"
proof (induction items arbitrary: d)
  case Nil
  then show ?case by (simp add: dict_update_def)
next
  case (Cons item items)
  obtain k v where item: "item = (k, v)" by (cases item)
  from Cons.IH[OF update_nonempty[of k v d]] item show ?case by (simp add: dict_update_def)
qed

lemma frame_of_row_typed: "row_typed data \<Longrightarrow> typed_frame (frame_of_row data)"
  unfolding row_typed_iff typed_frame_iff frame_of_row_def
  by (auto split: cellval.splits)

lemma frame_of_row_uniform: "uniform 1 (frame_of_row data)"
  unfolding uniform_iff frame_of_row_def by (auto split: cellval.splits)

lemma farmer_items_numeric:
  "list_all (\<lambda>(k, v). case v of NumV x \<Rightarrow> True | StrV s \<Rightarrow> False) (farmer_items fi)"
  by (simp add: farmer_items_def split: option.splits)

lemma external_items_numeric:
  "list_all (\<lambda>(k, v). case v of NumV x \<Rightarrow> True | StrV s \<Rightarrow> False) (map (\<lambda>(k, v). (k, NumV v)) d)"
  by (simp add: list_all_iff split_beta)

lemma create_input_dataframe_typed:
  "typed_frame (create_input_dataframe request ext)"
  "uniform 1 (create_input_dataframe request ext)"
  "create_input_dataframe request ext \<noteq> []"
proof -
  define data where "data =
     [(''year'', NumV (Some (of_int (year request)))), (''state'', StrV (state request)),
      (''district'', StrV (district request)), (''crop'', StrV (crop request)),
      (''area_ha'', NumV (Some 1.0)), (''production_tonnes'', NumV (Some 0))]"
  define data1 where "data1 = dict_update data (map (\<lambda>(k, v). (k, NumV v)) (weather ext))"
  define data2 where "data2 = dict_update data1 (map (\<lambda>(k, v). (k, NumV v)) (soil ext))"
  define data3 where "data3 =
     (case farmer request of None \<Rightarrow> data2 | Some fi \<Rightarrow> dict_update data2 (farmer_items fi))"
  have eq: "create_input_dataframe request ext = frame_of_row data3"
    by (cases "farmer request")
      (simp_all add: create_input_dataframe_def Let_def data_def data1_def data2_def data3_def)
  have "row_typed data" by (simp add: data_def row_typed_def categorical_cols_def)
  then have "row_typed data1" unfolding data1_def
    by (rule row_typed_dict_update) (rule external_items_numeric)
  then have t2: "row_typed data2" unfolding data2_def
    by (rule row_typed_dict_update) (rule external_items_numeric)
  have "row_typed data3"
  proof (cases "farmer request")
    case None
    with t2 show ?thesis by (simp add: data3_def)
  next
    case (Some fi)
    from row_typed_dict_update[OF t2 farmer_items_numeric[of fi]] Some
    show ?thesis by (simp add: data3_def)
  qed
  then show "typed_frame (create_input_dataframe request ext)"
    unfolding eq by (rule frame_of_row_typed)
  show "uniform 1 (create_input_dataframe request ext)"
    unfolding eq by (rule frame_of_row_uniform)
  have "data \<noteq> []" by (simp add: data_def)
  then have "data1 \<noteq> []" unfolding data1_def by (rule dict_update_nonempty)
  then have n2: "data2 \<noteq> []" unfolding data2_def by (rule dict_update_nonempty)
  have "data3 \<noteq> []"
  proof (cases "farmer request")
    case None
    with n2 show ?thesis by (simp add: data3_def)
  next
    case (Some fi)
    from dict_update_nonempty[OF n2, of "farmer_items fi"] Some
    show ?thesis by (simp add: data3_def)
  qed
  then show "create_input_dataframe request ext \<noteq> []"
    unfolding eq by (simp add: frame_of_row_def)
qed

lemma add_default_ok:
  assumes "typed_frame df" and "uniform 1 df" and "df \<noteq> []"
  shows "typed_frame (add_default fd df)" and "uniform 1 (add_default fd df)"
    and "add_default fd df \<noteq> []"
    and "has_col (add_default fd df) c \<longleftrightarrow> c = fst fd \<or> has_col df c"
proof -
  from assms(2,3) have n: "n_rows df = 1" by (rule uniform_n_rows)
  show "typed_frame (add_default fd df)" using assms(1) by (simp add: add_default_def)
  show "uniform 1 (add_default fd df)"
    using assms(2) n by (simp add: add_default_def uniform_set_col)
  show "add_default fd df \<noteq> []"
    using assms(3) by (simp add: add_default_def set_col_def update_nonempty)
  show "has_col (add_default fd df) c \<longleftrightarrow> c = fst fd \<or> has_col df c"
    by (auto simp: add_default_def)
qed

lemma fold_add_default_ok:
  assumes "typed_frame df" and "uniform 1 df" and "df \<noteq> []"
  shows "typed_frame (fold add_default ds df) \<and> uniform 1 (fold add_default ds df) \<and>
         fold add_default ds df \<noteq> [] \<and>
         (\<forall>c. has_col (fold add_default ds df) c \<longleftrightarrow> c \<in> fst ` set ds \<or> has_col df c)"
  using assms
proof (induction ds arbitrary: df)
  case Nil
  then show ?case by simp
next
  case (Cons d ds)
  note ok = add_default_ok[OF Cons.prems, of d]
  from Cons.IH[OF ok(1) ok(2) ok(3)] ok(4) show ?case by auto
qed

lemma add_default_features_ok:
  assumes "typed_frame df" and "uniform 1 df" and "df \<noteq> []"
  shows "typed_frame (add_default_features df)" and "uniform 1 (add_default_features df)"
    and "has_col (add_default_features df) ''precip_sum''"
proof -
  define df1 where "df1 = fold add_default weather_defaults df"
  define df2 where "df2 = fold add_default soil_defaults df1"
  have eq: "add_default_features df = fold add_default lag_defaults df2"
    by (simp add: add_default_features_def df1_def df2_def)
  note 1 = fold_add_default_ok[OF assms, of weather_defaults, folded df1_def]
  from 1 have 2: "typed_frame df2 \<and> uniform 1 df2 \<and> df2 \<noteq> [] \<and>
      (\<forall>c. has_col df2 c \<longleftrightarrow> c \<in> fst ` set soil_defaults \<or> has_col df1 c)"
    unfolding df2_def by (intro fold_add_default_ok) simp_all
  then have 3: "typed_frame (add_default_features df) \<and> uniform 1 (add_default_features df) \<and>
      add_default_features df \<noteq> [] \<and>
      (\<forall>c. has_col (add_default_features df) c \<longleftrightarrow> c \<in> fst ` set lag_defaults \<or> has_col df2 c)"
    unfolding eq by (intro fold_add_default_ok) simp_all
  from 3 show "typed_frame (add_default_features df)" "uniform 1 (add_default_features df)"
    by simp_all
  from 1 have "has_col df1 ''precip_sum''" by (simp add: weather_defaults_def)
  with 2 have "has_col df2 ''precip_sum''" by simp
  with 3 show "has_col (add_default_features df) ''precip_sum''" by simp
qed

subsection \<open>The point estimate\<close>

lemma predict_request_features:
  assumes "encoders_fitted fe"
  shows "\<exists>X y. prepare_features env fe (add_default_features (create_input_dataframe request ext))
             ''yield_t_ha'' False False = Inr ((X, y), fe) \<and>
           uniform 1 X \<and> (selected_features fe = [] \<longrightarrow> n_rows X = 1)"
proof -
  define df where "df = add_default_features (create_input_dataframe request ext)"
  note d = add_default_features_ok[OF create_input_dataframe_typed, of request ext, folded df_def]
  from prepare_features_serve_total[OF d(1) assms, of env "''yield_t_ha''" False]
  obtain dfe X y
    where p: "prepare_features env fe df ''yield_t_ha'' False False = Inr ((X, y), fe)"
      and c: "columns X =
             (if selected_features fe = [] then columns (fst (split_target dfe ''yield_t_ha''))
              else filter (has_col (fst (split_target dfe ''yield_t_ha''))) (selected_features fe))"
      and u: "\<forall>n. n \<le> 2 \<longrightarrow> uniform n df \<longrightarrow> uniform n X"
      and s: "set (columns df) \<subseteq> set (columns dfe)"
    by blast
  from u d(2) have u1: "uniform 1 X" by simp
  have "n_rows X = 1" if sel: "selected_features fe = []"
  proof -
    from d(3) s have "has_col dfe ''precip_sum''" by (auto simp: has_col_def)
    then have "has_col (fst (split_target dfe ''yield_t_ha'')) ''precip_sum''"
      by (rule split_target_has_col) (simp_all add: cols_to_remove_def)
    with c sel have "columns X \<noteq> []" by (auto simp: has_col_def)
    then have "X \<noteq> []" by (auto simp: columns_def)
    with u1 show ?thesis by (rule uniform_n_rows)
  qed
  with p u1 show ?thesis unfolding df_def by blast
qed

lemma predict_point_estimate:
  assumes "validate_coordinates (latitude request) (longitude request)"
      and "validate_year (year request) now_year"
      and "feature_engineer svc = Some fe" and "model svc = Some m"
      and "prepare_features env fe (add_default_features (create_input_dataframe request ext))
             ''yield_t_ha'' False False = Inr ((X, y), fe')"
  shows "map_sum id predicted_yield (PredictionService_predict env svc request ext now_year ts) =
         (case model_predict m X of
            Inl e \<Rightarrow> Inl e
          | Inr preds \<Rightarrow> (case preds of [] \<Rightarrow> Inl IndexError | p # ps \<Rightarrow> Inr (py_round p 2)))"
  using assms
  by (simp add: PredictionService_predict_def Let_def bind_err_def split: sum.splits list.splits)

lemma constant_model_first:
  "model_predict (constant_model c) X = Inr (p # ps) \<Longrightarrow> p = c"
  by (cases "n_rows X") (simp_all add: constant_model_def constant_predict_def)

lemma py_round_of_int: "py_round (of_int k) 2 = of_int k"
  using round_half_even_of_int[of "k * 100"] by (simp add: py_round_def)

text \<open>
  C6, as stated, fails: the service returns the output of the model, and nothing keeps a
  model from a negative output. With a model that predicts -1 for every row, no external
  data and an engineer without encoders, the request completes with the point estimate -1.
\<close>

theorem predict_negative_estimate_counterexample:
  "map_sum id predicted_yield
     (PredictionService_predict sample_env
        \<lparr>model = Some (constant_model (- 1)), feature_engineer = Some FeatureEngineer_init,
          service_metadata = \<lparr>model_name = None, metrics = []\<rparr>\<rparr>
        \<lparr>latitude = 12.97, longitude = 77.59, state = ''Karnataka'', district = ''Mysuru'',
          crop = ''rice'', year = 2024, farmer = None\<rparr>
        \<lparr>weather = [], soil = []\<rparr> 2024 ''2024-06-01T00:00:00'') =
   Inr (- 1)"
proof -
  let ?req = "\<lparr>latitude = 12.97, longitude = 77.59, state = ''Karnataka'', district = ''Mysuru'',
          crop = ''rice'', year = 2024, farmer = None\<rparr>"
  let ?ext = "\<lparr>weather = [], soil = []\<rparr>"
  have fi: "encoders_fitted FeatureEngineer_init"
    by (simp add: encoders_fitted_def FeatureEngineer_init_def categorical_cols_def)
  from predict_request_features[OF fi, of sample_env ?req ?ext]
  obtain X y
    where p: "prepare_features sample_env FeatureEngineer_init
                (add_default_features (create_input_dataframe ?req ?ext))
                ''yield_t_ha'' False False = Inr ((X, y), FeatureEngineer_init)"
      and n: "n_rows X = 1"
    by (auto simp: FeatureEngineer_init_def)
  have r: "py_round (- 1) 2 = - 1" using py_round_of_int[of "- 1"] by simp
  have "map_sum id predicted_yield
     (PredictionService_predict sample_env
        \<lparr>model = Some (constant_model (- 1)), feature_engineer = Some FeatureEngineer_init,
          service_metadata = \<lparr>model_name = None, metrics = []\<rparr>\<rparr>
        ?req ?ext 2024 ''2024-06-01T00:00:00'') =
     (case model_predict (constant_model (- 1)) X of
        Inl e \<Rightarrow> Inl e
      | Inr preds \<Rightarrow> (case preds of [] \<Rightarrow> Inl IndexError | p # ps \<Rightarrow> Inr (py_round p 2)))"
    by (rule predict_point_estimate[OF _ _ _ _ p])
      (simp_all add: validate_coordinates_def validate_year_def)
  with n r show ?thesis by (simp add: constant_model_def constant_predict_def)
qed

text \<open>
  C6, amended. For every request that the prediction service completes successfully, the
  returned point estimate is the first output of the bound regression model on the
  feature row of the request, rounded to two decimals (the service does not clamp it);
  it is at least 0 whenever that output of the model is at least 0.
\<close>

theorem predict_point_estimate_rounds_model_output:
  assumes "PredictionService_predict env svc request ext now_year ts = Inr res"
  shows "\<exists>fe m X y fe' p ps.
           feature_engineer svc = Some fe \<and> model svc = Some m \<and>
           prepare_features env fe (add_default_features (create_input_dataframe request ext))
             ''yield_t_ha'' False False = Inr ((X, y), fe') \<and>
           model_predict m X = Inr (p # ps) \<and>
           predicted_yield res = py_round p 2 \<and>
           (0 \<le> p \<longrightarrow> 0 \<le> predicted_yield res)"
proof -
  have v1: "validate_coordinates (latitude request) (longitude request)"
    using assms by (rule contrapos_pp) (simp add: PredictionService_predict_def)
  have v2: "validate_year (year request) now_year"
    using assms v1 by (rule_tac ccontr) (simp add: PredictionService_predict_def)
  obtain fe where fe: "feature_engineer svc = Some fe"
    using assms v1 v2
    by (cases "feature_engineer svc") (simp_all add: PredictionService_predict_def Let_def)
  obtain X y fe'
    where p: "prepare_features env fe (add_default_features (create_input_dataframe request ext))
                ''yield_t_ha'' False False = Inr ((X, y), fe')"
    using assms v1 v2 fe
    by (cases "prepare_features env fe (add_default_features (create_input_dataframe request ext))
                ''yield_t_ha'' False False")
      (auto simp: PredictionService_predict_def Let_def)
  obtain m where m: "model svc = Some m"
    using assms v1 v2 fe p
    by (cases "model svc") (simp_all add: PredictionService_predict_def Let_def)
  from predict_point_estimate[OF v1 v2 fe m p, of ts] assms
  have r: "(case model_predict m X of
              Inl e \<Rightarrow> Inl e
            | Inr preds \<Rightarrow> (case preds of [] \<Rightarrow> Inl IndexError | p # ps \<Rightarrow> Inr (py_round p 2))) =
           Inr (predicted_yield res)"
    by simp
  then obtain preds where preds: "model_predict m X = Inr preds"
    by (cases "model_predict m X") simp_all
  with r obtain q qs where q: "preds = q # qs" by (cases preds) simp_all
  with r preds have y: "predicted_yield res = py_round q 2" by simp
  then have "0 \<le> q \<longrightarrow> 0 \<le> predicted_yield res" by (simp add: py_round_nonneg)
  with fe m p preds q y show ?thesis by blast
qed

theorem predict_point_estimate_rounds_model_output_witness:
  "map_sum id predicted_yield
     (PredictionService_predict sample_env
        \<lparr>model = Some (constant_model 3), feature_engineer = Some FeatureEngineer_init,
          service_metadata = \<lparr>model_name = None, metrics = []\<rparr>\<rparr>
        \<lparr>latitude = 12.97, longitude = 77.59, state = ''Karnataka'', district = ''Mysuru'',
          crop = ''rice'', year = 2024, farmer = None\<rparr>
        \<lparr>weather = [], soil = []\<rparr> 2024 ''2024-06-01T00:00:00'') =
   Inr 3"
proof -
  let ?svc = "\<lparr>model = Some (constant_model 3), feature_engineer = Some FeatureEngineer_init,
          service_metadata = \<lparr>model_name = None, metrics = []\<rparr>\<rparr>"
  let ?req = "\<lparr>latitude = 12.97, longitude = 77.59, state = ''Karnataka'', district = ''Mysuru'',
          crop = ''rice'', year = 2024, farmer = None\<rparr>"
  let ?ext = "\<lparr>weather = [], soil = []\<rparr>"
  let ?run = "PredictionService_predict sample_env ?svc ?req ?ext 2024 ''2024-06-01T00:00:00''"
  have fi: "encoders_fitted FeatureEngineer_init"
    by (simp add: encoders_fitted_def FeatureEngineer_init_def categorical_cols_def)
  from predict_request_features[OF fi, of sample_env ?req ?ext]
  obtain X y
    where p: "prepare_features sample_env FeatureEngineer_init
                (add_default_features (create_input_dataframe ?req ?ext))
                ''yield_t_ha'' False False = Inr ((X, y), FeatureEngineer_init)"
      and n: "n_rows X = 1"
    by (auto simp: FeatureEngineer_init_def)
  have "map_sum id predicted_yield ?run =
     (case model_predict (constant_model 3) X of
        Inl e \<Rightarrow> Inl e
      | Inr preds \<Rightarrow> (case preds of [] \<Rightarrow> Inl IndexError | p # ps \<Rightarrow> Inr (py_round p 2)))"
    by (rule predict_point_estimate[OF _ _ _ _ p])
      (simp_all add: validate_coordinates_def validate_year_def)
  with n have "map_sum id predicted_yield ?run = Inr (py_round 3 2)"
    by (simp add: constant_model_def constant_predict_def)
  then obtain res where run: "?run = Inr res" by (cases ?run) simp_all
  from predict_point_estimate_rounds_model_output[OF run]
  obtain X' q qs
    where "model_predict (constant_model 3) X' = Inr (q # qs)"
      and "predicted_yield res = py_round q 2"
    by auto
  with constant_model_first[of 3 X' q qs] py_round_of_int[of 3]
  have "predicted_yield res = 3" by simp
  with run show ?thesis by simp
qed

end
